theory Spec2Isabelle
  imports Main
begin

section \<open>Values, errors and the store\<close>

text \<open>
  The helper of \<^verbatim>\<open>command_helper.py\<close> works on three kinds of mutable things: model
  instances (the records), payload dicts, and whatever the persistence layer keeps. Objects
  are addressed by identity: a reference is an index into a list of objects, a fresh object
  is appended at the end.
\<close>

type_synonym ref = nat

datatype val =
    VNone
  | VBool bool
  | VInt int
  | VStr string
  | VDatetime nat
  | VList "val list"
  | VObj ref

text \<open>
  Python truthiness, as \<^verbatim>\<open>if not found_obj\<close> reads it. A model instance is truthy (a
  mapped class defines neither \<^verbatim>\<open>__bool__\<close> nor \<^verbatim>\<open>__len__\<close>).
\<close>

fun truthy :: "val \<Rightarrow> bool" where
  "truthy VNone = False"
| "truthy (VBool b) = b"
| "truthy (VInt i) = (i \<noteq> 0)"
| "truthy (VStr s) = (s \<noteq> [])"
| "truthy (VDatetime t) = True"
| "truthy (VList xs) = (xs \<noteq> [])"
| "truthy (VObj r) = True"

text \<open>The attributes of an instance, and the contents of a dict: names to values.\<close>

type_synonym attrs = "string \<rightharpoonup> val"

text \<open>
  \<open>NoResultFound\<close> is \<^verbatim>\<open>orm_exc.NoResultFound\<close>; \<open>AttributeError\<close> is what
  \<^verbatim>\<open>setattr\<close> raises on a value that is no object; every other exception carries its
  name. A collaborator may raise any of them.
\<close>

datatype error = NoResultFound | AttributeError | OtherError string

text \<open>
  The collaborators (the model class, the session, the find function) get the session, the
  model class and the filter spec: they see and may change the instances and the state of
  the persistence layer \<open>'s\<close>, and they may raise. The payload dicts are not reachable from
  their arguments.
\<close>

type_synonym 's pstate = "attrs list \<times> 's"

type_synonym ('a, 's) collab = "'s pstate \<Rightarrow> (error + 'a) \<times> 's pstate"

text \<open>\<^verbatim>\<open>session_obj\<close>: the only method the helper calls is \<^verbatim>\<open>add\<close>.\<close>

record 's session =
  add :: "val \<Rightarrow> (unit, 's) collab"

text \<open>\<^verbatim>\<open>model_cls\<close>: the helper only instantiates it, \<^verbatim>\<open>model_cls()\<close>.\<close>

record 's model =
  init :: "(ref, 's) collab"

text \<open>
  A filter spec is a list of dicts from a field name to a dict from an operator to a value,
  as in \<^verbatim>\<open>[{"id": {"$eq": _id}}]\<close>.
\<close>

type_synonym params = "(string \<times> (string \<times> val) list) list list"

type_synonym 's finder = "'s session \<Rightarrow> 's model \<Rightarrow> params \<Rightarrow> (val, 's) collab"

record 's world =
  instances :: "attrs list"
  backend :: 's
  dicts :: "attrs list"
  clock :: nat

text \<open>A call into a collaborator: it runs on the instances and the persistence state.\<close>

definition call :: "('a, 's) collab \<Rightarrow> 's world \<Rightarrow> (error + 'a) \<times> 's world" where
  "call c w =
     (case c (instances w, backend w) of
        (res, (i, b)) \<Rightarrow> (res, w\<lparr>instances := i, backend := b\<rparr>))"

text \<open>\<^verbatim>\<open>datetime.utcnow()\<close>\<close>

definition datetime_utcnow :: "'s world \<Rightarrow> val" where
  "datetime_utcnow w = VDatetime (clock w)"

text \<open>\<^verbatim>\<open>setattr(obj, field, value)\<close>\<close>

fun setattr :: "val \<Rightarrow> string \<Rightarrow> val \<Rightarrow> 's world \<Rightarrow> (error + unit) \<times> 's world" where
  "setattr (VObj r) field v w =
     (Inr (), w\<lparr>instances := (instances w)[r := (instances w ! r)(field \<mapsto> v)]\<rparr>)"
| "setattr obj field v w = (Inl AttributeError, w)"

section \<open>The helper\<close>

text \<open>
  The loop of \<^verbatim>\<open>save\<close> and of \<^verbatim>\<open>update_by_params\<close>:
  \<^verbatim>\<open>for field in fields: if field in data: setattr(obj, field, data[field])\<close>
  (the parameter \<^verbatim>\<open>fields\<close> is written \<open>flds\<close>: every record declares a constant
  \<open>fields\<close>).
\<close>

fun set_fields :: "string list \<Rightarrow> ref \<Rightarrow> val \<Rightarrow> 's world \<Rightarrow> (error + unit) \<times> 's world" where
  "set_fields [] data obj w = (Inr (), w)"
| "set_fields (field # flds) data obj w =
     (case (dicts w ! data) field of
        None \<Rightarrow> set_fields flds data obj w
      | Some v \<Rightarrow>
          (case setattr obj field v w of
             (Inl e, w') \<Rightarrow> (Inl e, w')
           | (Inr u, w') \<Rightarrow> set_fields flds data obj w'))"

text \<open>
  The last two statements of \<^verbatim>\<open>save\<close> and of \<^verbatim>\<open>update_by_params\<close>:
  \<^verbatim>\<open>session_obj.add(obj); return obj\<close>
\<close>

definition add_and_return :: "'s session \<Rightarrow> val \<Rightarrow> 's world \<Rightarrow> (error + val) \<times> 's world" where
  "add_and_return session_obj obj w =
     (case call (add session_obj obj) w of
        (Inl e, w') \<Rightarrow> (Inl e, w')
      | (Inr u, w') \<Rightarrow> (Inr obj, w'))"

definition save ::
  "'s session \<Rightarrow> 's model \<Rightarrow> string list \<Rightarrow> ref \<Rightarrow> 's world \<Rightarrow> (error + val) \<times> 's world" where
  "save session_obj model_cls flds data w =
     (case call (init model_cls) w of
        (Inl e, w1) \<Rightarrow> (Inl e, w1)
      | (Inr r, w1) \<Rightarrow>
          (case set_fields flds data (VObj r) w1 of
             (Inl e, w2) \<Rightarrow> (Inl e, w2)
           | (Inr u, w2) \<Rightarrow> add_and_return session_obj (VObj r) w2))"

definition update_by_params ::
  "'s session \<Rightarrow> 's model \<Rightarrow> 's finder \<Rightarrow> string list \<Rightarrow> params \<Rightarrow> ref \<Rightarrow> 's world
     \<Rightarrow> (error + val) \<times> 's world" where
  "update_by_params session_obj model_cls find_func flds params data w =
     (case call (find_func session_obj model_cls params) w of
        (Inl e, w1) \<Rightarrow> (Inl e, w1)
      | (Inr found_obj, w1) \<Rightarrow>
          if \<not> truthy found_obj then (Inl NoResultFound, w1)
          else
            (case set_fields flds data found_obj w1 of
               (Inl e, w2) \<Rightarrow> (Inl e, w2)
             | (Inr u, w2) \<Rightarrow> add_and_return session_obj found_obj w2))"

text \<open>The parameter \<^verbatim>\<open>_id\<close> is written \<open>the_id\<close>.\<close>

definition update_by_id ::
  "'s session \<Rightarrow> 's model \<Rightarrow> 's finder \<Rightarrow> string list \<Rightarrow> val \<Rightarrow> ref \<Rightarrow> 's world
     \<Rightarrow> (error + val) \<times> 's world" where
  "update_by_id session_obj model_cls find_func flds the_id data w =
     update_by_params session_obj model_cls find_func flds
       [[(''id'', [(''$eq'', the_id)])]] data w"

text \<open>
  \<^verbatim>\<open>data\<close> is \<open>None\<close> for Python's \<^verbatim>\<open>None\<close> (the default) and \<open>Some d\<close> for the dict
  at \<open>d\<close>. \<^verbatim>\<open>not data\<close> holds for \<^verbatim>\<open>None\<close> and for an empty dict; the dict literal
  of the first branch is a fresh object, \<^verbatim>\<open>data.update\<close> of the second writes into the
  caller's.
\<close>

definition delete_by_params ::
  "'s session \<Rightarrow> 's model \<Rightarrow> 's finder \<Rightarrow> string list \<Rightarrow> params \<Rightarrow> ref option \<Rightarrow> 's world
     \<Rightarrow> (error + val) \<times> 's world" where
  "delete_by_params session_obj model_cls find_func flds params data w =
     (if (case data of None \<Rightarrow> True | Some d \<Rightarrow> dicts w ! d = Map.empty)
      then
        update_by_params session_obj model_cls find_func flds params (length (dicts w))
          (w\<lparr>dicts := dicts w @
                [[''removed'' \<mapsto> VBool True, ''removed_at'' \<mapsto> datetime_utcnow w]]\<rparr>)
      else
        update_by_params session_obj model_cls find_func flds params (the data)
          (w\<lparr>dicts := (dicts w)[the data := dicts w ! the data ++
                [''removed'' \<mapsto> VBool True, ''removed_at'' \<mapsto> datetime_utcnow w]]\<rparr>))"

definition delete_by_id ::
  "'s session \<Rightarrow> 's model \<Rightarrow> 's finder \<Rightarrow> string list \<Rightarrow> val \<Rightarrow> ref option \<Rightarrow> 's world
     \<Rightarrow> (error + val) \<times> 's world" where
  "delete_by_id session_obj model_cls find_func flds the_id data w =
     delete_by_params session_obj model_cls find_func flds
       [[(''id'', [(''$eq'', the_id)])]] data w"

section \<open>Test doubles\<close>

text \<open>
  Collaborators to run the helper on: a session that records what it is given, a session
  whose \<^verbatim>\<open>add\<close> always raises, a session whose \<^verbatim>\<open>add\<close> raises only on a record
  named "b", a model class that cannot be instantiated, a model class whose instances start
  with given attributes, and a find function that raises.
\<close>

definition recording_session :: "(val list) session" where
  "recording_session = \<lparr>add = (\<lambda>obj (i, b). (Inr (), (i, b @ [obj])))\<rparr>"

definition failing_session :: "error \<Rightarrow> (val list) session" where
  "failing_session e = \<lparr>add = (\<lambda>obj st. (Inl e, st))\<rparr>"

definition picky_session :: "error \<Rightarrow> (val list) session" where
  "picky_session e =
     \<lparr>add = (\<lambda>obj (i, b).
        (case obj of
           VObj r \<Rightarrow>
             if (i ! r) ''name'' = Some (VStr ''b'') then (Inl e, (i, b))
             else (Inr (), (i, b @ [obj]))
         | _ \<Rightarrow> (Inr (), (i, b @ [obj]))))\<rparr>"

definition failing_model :: "error \<Rightarrow> (val list) model" where
  "failing_model e = \<lparr>init = (\<lambda>st. (Inl e, st))\<rparr>"

definition plain_model :: "attrs \<Rightarrow> (val list) model" where
  "plain_model defaults = \<lparr>init = (\<lambda>(i, b). (Inr (length i), (i @ [defaults], b)))\<rparr>"

definition finder_raising :: "error \<Rightarrow> (val list) finder" where
  "finder_raising e = (\<lambda>session_obj model_cls params st. (Inl e, st))"

text \<open>
  A find function that reads a filter spec of the shape \<^verbatim>\<open>[{"id": {"$eq": v}}]\<close>: the
  first instance whose \<^verbatim>\<open>id\<close> is \<open>v\<close>, and \<^verbatim>\<open>None\<close> when there is none.
\<close>

fun first_with_id :: "attrs list \<Rightarrow> nat \<Rightarrow> val \<Rightarrow> val" where
  "first_with_id [] n v = VNone"
| "first_with_id (a # as) n v =
     (if a ''id'' = Some v then VObj n else first_with_id as (Suc n) v)"

definition finder_by_id :: "(val list) finder" where
  "finder_by_id = (\<lambda>session_obj model_cls params (i, b).
     (case params of
        [[(f, [(opr, v)])]] \<Rightarrow>
          if f = ''id'' \<and> opr = ''$eq'' then (Inr (first_with_id i 0 v), (i, b))
          else (Inr VNone, (i, b))
      | _ \<Rightarrow> (Inr VNone, (i, b))))"

text \<open>
  The record of the example: id 7, name "a", not removed. The dict at 0 is a payload
  \<^verbatim>\<open>{"name": "b", "secret": 1}\<close>, the dict at 1 is empty, the dict at 2 is the extra data
  \<^verbatim>\<open>{"removed": False, "note": "x"}\<close>.
\<close>

definition example_world :: "(val list) world" where
  "example_world =
     \<lparr>instances = [[''id'' \<mapsto> VInt 7, ''name'' \<mapsto> VStr ''a'', ''removed'' \<mapsto> VBool False]],
      backend = [],
      dicts = [[''name'' \<mapsto> VStr ''b'', ''secret'' \<mapsto> VInt 1],
               Map.empty,
               [''removed'' \<mapsto> VBool False, ''note'' \<mapsto> VStr ''x'']],
      clock = 1000\<rparr>"

section \<open>What the loop does\<close>

text \<open>
  The attributes of an object after the loop over \<open>flds\<close> with the payload \<open>data\<close>: the
  listed names that the payload has are overwritten, in the order of the list.
\<close>

fun assigned :: "string list \<Rightarrow> attrs \<Rightarrow> attrs \<Rightarrow> attrs" where
  "assigned [] data a = a"
| "assigned (f # fs) data a =
     assigned fs data (case data f of None \<Rightarrow> a | Some v \<Rightarrow> a(f \<mapsto> v))"

lemma assigned_apply:
  "assigned fs data a k =
     (if k \<in> set fs then (case data k of None \<Rightarrow> a k | Some v \<Rightarrow> Some v) else a k)"
  by (induction fs arbitrary: a) (auto split: option.splits)

lemma call_eq:
  "c (instances w, backend w) = (res, (i, b)) \<Longrightarrow>
     call c w = (res, w\<lparr>instances := i, backend := b\<rparr>)"
  by (simp add: call_def)

lemma call_dicts: "dicts (snd (call c w)) = dicts w"
  by (simp add: call_def split: prod.splits)

lemma set_fields_dicts: "dicts (snd (set_fields fs d obj w)) = dicts w"
proof (induction fs arbitrary: w)
  case Nil
  show ?case by simp
next
  case (Cons f fs)
  show ?case
  proof (cases "(dicts w ! d) f")
    case None
    then show ?thesis using Cons.IH by simp
  next
    case (Some v)
    show ?thesis
    proof (cases obj)
      case (VObj r)
      then show ?thesis
        using Some Cons.IH [of "w\<lparr>instances := (instances w)[r := (instances w ! r)(f \<mapsto> v)]\<rparr>"]
        by simp
    qed (simp_all add: Some)
  qed
qed

lemma set_fields_obj:
  "set_fields fs d (VObj r) w =
     (Inr (), w\<lparr>instances := (instances w)[r := assigned fs (dicts w ! d) (instances w ! r)]\<rparr>)"
proof (induction fs arbitrary: w)
  case Nil
  show ?case by simp
next
  case (Cons f fs)
  show ?case
  proof (cases "(dicts w ! d) f")
    case None
    then show ?thesis using Cons.IH by simp
  next
    case (Some v)
    show ?thesis
    proof (cases "r < length (instances w)")
      case True
      then show ?thesis using Some Cons.IH by simp
    next
      case False
      then have "length (instances w) \<le> r" by simp
      then show ?thesis using Some Cons.IH by (simp add: list_update_beyond)
    qed
  qed
qed

lemma add_and_return_dicts: "dicts (snd (add_and_return session_obj obj w)) = dicts w"
proof -
  obtain res w' where c: "call (add session_obj obj) w = (res, w')"
    by (cases "call (add session_obj obj) w")
  then have "dicts w' = dicts w" using call_dicts [of "add session_obj obj" w] by simp
  then show ?thesis using c by (cases res) (simp_all add: add_and_return_def)
qed

lemma update_by_params_dicts:
  "dicts (snd (update_by_params session_obj model_cls find_func flds params data w)) = dicts w"
proof -
  obtain res w1 where c: "call (find_func session_obj model_cls params) w = (res, w1)"
    by (cases "call (find_func session_obj model_cls params) w")
  have d1: "dicts w1 = dicts w" using call_dicts [of "find_func session_obj model_cls params" w] c by simp
  show ?thesis
  proof (cases res)
    case (Inl e)
    then show ?thesis using c d1 by (simp add: update_by_params_def)
  next
    case (Inr found_obj)
    show ?thesis
    proof (cases "truthy found_obj")
      case False
      then show ?thesis using c d1 Inr by (simp add: update_by_params_def)
    next
      case True
      obtain res2 w2 where s: "set_fields flds data found_obj w1 = (res2, w2)"
        by (cases "set_fields flds data found_obj w1")
      have d2: "dicts w2 = dicts w" using set_fields_dicts [of flds data found_obj w1] s d1 by simp
      show ?thesis
      proof (cases res2)
        case (Inl e)
        then show ?thesis using c Inr True s d2 by (simp add: update_by_params_def)
      next
        case (Inr u)
        have "dicts (snd (add_and_return session_obj found_obj w2)) = dicts w2"
          by (rule add_and_return_dicts)
        then show ?thesis using c \<open>res = Inr found_obj\<close> True s d2 Inr
          by (simp add: update_by_params_def)
      qed
    qed
  qed
qed

lemma world_update_order:
  "w\<lparr>backend := b, instances := i\<rparr> = w\<lparr>instances := i, backend := b\<rparr>"
  by (cases w) simp

lemma update_by_params_found:
  "find_func session_obj model_cls params (instances w, backend w) = (Inr (VObj r), (i1, b1)) \<Longrightarrow>
   update_by_params session_obj model_cls find_func flds params data w =
     add_and_return session_obj (VObj r)
       (w\<lparr>instances := i1[r := assigned flds (dicts w ! data) (i1 ! r)], backend := b1\<rparr>)"
  by (simp add: update_by_params_def call_eq set_fields_obj world_update_order)

lemma save_instantiated:
  "init model_cls (instances w, backend w) = (Inr r, (i1, b1)) \<Longrightarrow>
   save session_obj model_cls flds data w =
     add_and_return session_obj (VObj r)
       (w\<lparr>instances := i1[r := assigned flds (dicts w ! data) (i1 ! r)], backend := b1\<rparr>)"
  by (simp add: save_def call_eq set_fields_obj world_update_order)

lemma add_and_return_fst:
  "fst (add_and_return session_obj obj w) =
     (case fst (add session_obj obj (instances w, backend w)) of
        Inl e \<Rightarrow> Inl e | Inr u \<Rightarrow> Inr obj)"
  by (simp add: add_and_return_def call_def split: prod.splits sum.splits)

lemma example_init:
  "init (plain_model Map.empty) (instances example_world, backend example_world) =
     (Inr 1, (instances example_world @ [Map.empty], backend example_world))"
  by (simp add: plain_model_def example_world_def)

lemma example_find:
  "finder_by_id recording_session (plain_model Map.empty) [[(''id'', [(''$eq'', VInt 7)])]]
      (instances example_world, backend example_world) =
     (Inr (VObj 0), (instances example_world, backend example_world))"
  by (simp add: finder_by_id_def example_world_def)

lemma recording_add:
  "add_and_return recording_session obj w = (Inr obj, w\<lparr>backend := backend w @ [obj]\<rparr>)"
  by (simp add: add_and_return_def call_def recording_session_def)

lemma delete_by_params_fresh:
  "(case data of None \<Rightarrow> True | Some d \<Rightarrow> dicts w ! d = Map.empty) \<Longrightarrow>
   delete_by_params session_obj model_cls find_func flds params data w =
     update_by_params session_obj model_cls find_func flds params (length (dicts w))
       (w\<lparr>dicts := dicts w @ [[''removed'' \<mapsto> VBool True, ''removed_at'' \<mapsto> VDatetime (clock w)]]\<rparr>)"
  by (simp add: delete_by_params_def datetime_utcnow_def)

lemma delete_by_params_merge:
  "dicts w ! d \<noteq> Map.empty \<Longrightarrow>
   delete_by_params session_obj model_cls find_func flds params (Some d) w =
     update_by_params session_obj model_cls find_func flds params d
       (w\<lparr>dicts := (dicts w)[d := dicts w ! d ++
          [''removed'' \<mapsto> VBool True, ''removed_at'' \<mapsto> VDatetime (clock w)]]\<rparr>)"
  by (simp add: delete_by_params_def datetime_utcnow_def)

lemma example_extra:
  "dicts example_world ! 2 = [''removed'' \<mapsto> VBool False, ''note'' \<mapsto> VStr ''x'']"
  by (simp add: example_world_def)

lemma assigned_absent:
  "\<forall>k \<in> set fs. data k = None \<Longrightarrow> assigned fs data a = a"
  by (rule ext) (simp add: assigned_apply)

lemma update_by_params_found_same:
  assumes "find_func session_obj model_cls params (instances w, backend w) = (Inr (VObj r), (i1, b1))"
    and "\<forall>k \<in> set flds. (dicts w ! data) k = None"
  shows "update_by_params session_obj model_cls find_func flds params data w =
     add_and_return session_obj (VObj r) (w\<lparr>instances := i1, backend := b1\<rparr>)"
  using assms by (simp add: update_by_params_found assigned_absent)

lemma update_by_params_add_raises:
  assumes "find_func session_obj model_cls params (instances w, backend w) = (Inr v, (i1, b1))"
    and "truthy v"
    and "set_fields flds data v (w\<lparr>instances := i1, backend := b1\<rparr>) = (Inr u, w2)"
    and "add session_obj v (instances w2, backend w2) = (Inl e, (i3, b3))"
  shows "update_by_params session_obj model_cls find_func flds params data w =
           (Inl e, w2\<lparr>instances := i3, backend := b3\<rparr>)"
proof -
  have c: "call (find_func session_obj model_cls params) w =
      (Inr v, w\<lparr>instances := i1, backend := b1\<rparr>)"
    using assms(1) by (rule call_eq)
  have a: "call (add session_obj v) w2 = (Inl e, w2\<lparr>instances := i3, backend := b3\<rparr>)"
    using assms(4) by (rule call_eq)
  show ?thesis
    unfolding update_by_params_def by (simp add: c assms(2) assms(3) add_and_return_def a)
qed

lemma save_add_raises:
  assumes "init model_cls (instances w, backend w) = (Inr r, (i1, b1))"
    and "set_fields flds data (VObj r) (w\<lparr>instances := i1, backend := b1\<rparr>) = (Inr u, w2)"
    and "add session_obj (VObj r) (instances w2, backend w2) = (Inl e, (i3, b3))"
  shows "save session_obj model_cls flds data w = (Inl e, w2\<lparr>instances := i3, backend := b3\<rparr>)"
proof -
  have c: "call (init model_cls) w = (Inr r, w\<lparr>instances := i1, backend := b1\<rparr>)"
    using assms(1) by (rule call_eq)
  have a: "call (add session_obj (VObj r)) w2 = (Inl e, w2\<lparr>instances := i3, backend := b3\<rparr>)"
    using assms(3) by (rule call_eq)
  show ?thesis
    unfolding save_def by (simp add: c assms(2) add_and_return_def a)
qed

lemma delete_fresh_add_raises:
  assumes "find_func session_obj model_cls params (instances w, backend w) = (Inr v, (i1, b1))"
    and "truthy v"
    and "case odata of None \<Rightarrow> True | Some d \<Rightarrow> dicts w ! d = Map.empty"
    and "set_fields flds (length (dicts w)) v
           (w\<lparr>dicts := dicts w @
                [[''removed'' \<mapsto> VBool True, ''removed_at'' \<mapsto> VDatetime (clock w)]],
              instances := i1, backend := b1\<rparr>) = (Inr u, w2)"
    and "add session_obj v (instances w2, backend w2) = (Inl e, (i3, b3))"
  shows "delete_by_params session_obj model_cls find_func flds params odata w =
           (Inl e, w2\<lparr>instances := i3, backend := b3\<rparr>)"
proof -
  let ?w = "w\<lparr>dicts := dicts w @
      [[''removed'' \<mapsto> VBool True, ''removed_at'' \<mapsto> VDatetime (clock w)]]\<rparr>"
  have f: "find_func session_obj model_cls params (instances ?w, backend ?w) = (Inr v, (i1, b1))"
    using assms(1) by simp
  have "update_by_params session_obj model_cls find_func flds params (length (dicts w)) ?w =
      (Inl e, w2\<lparr>instances := i3, backend := b3\<rparr>)"
    using f assms(2) assms(4) assms(5)
    by (rule update_by_params_add_raises [where find_func = find_func and w = ?w])
  then show ?thesis using assms(3) by (simp add: delete_by_params_fresh)
qed

lemma delete_merge_add_raises:
  assumes "find_func session_obj model_cls params (instances w, backend w) = (Inr v, (i1, b1))"
    and "truthy v"
    and "dicts w ! d \<noteq> Map.empty"
    and "set_fields flds d v
           (w\<lparr>dicts := (dicts w)[d := dicts w ! d ++
                [''removed'' \<mapsto> VBool True, ''removed_at'' \<mapsto> VDatetime (clock w)]],
              instances := i1, backend := b1\<rparr>) = (Inr u, w2)"
    and "add session_obj v (instances w2, backend w2) = (Inl e, (i3, b3))"
  shows "delete_by_params session_obj model_cls find_func flds params (Some d) w =
           (Inl e, w2\<lparr>instances := i3, backend := b3\<rparr>)"
proof -
  let ?w = "w\<lparr>dicts := (dicts w)[d := dicts w ! d ++
      [''removed'' \<mapsto> VBool True, ''removed_at'' \<mapsto> VDatetime (clock w)]]\<rparr>"
  have f: "find_func session_obj model_cls params (instances ?w, backend ?w) = (Inr v, (i1, b1))"
    using assms(1) by simp
  have "update_by_params session_obj model_cls find_func flds params d ?w =
      (Inl e, w2\<lparr>instances := i3, backend := b3\<rparr>)"
    using f assms(2) assms(4) assms(5)
    by (rule update_by_params_add_raises [where find_func = find_func and w = ?w])
  then show ?thesis using assms(3) by (simp add: delete_by_params_merge)
qed

lemma example_find_picky:
  "finder_by_id (picky_session e) (plain_model Map.empty) [[(''id'', [(''$eq'', VInt 7)])]]
      (instances example_world, backend example_world) =
     (Inr (VObj 0), (instances example_world, backend example_world))"
  by (simp add: finder_by_id_def example_world_def)

lemma example_find_failing:
  "finder_by_id (failing_session e) (plain_model Map.empty) [[(''id'', [(''$eq'', VInt 7)])]]
      (instances example_world, backend example_world) =
     (Inr (VObj 0), (instances example_world, backend example_world))"
  by (simp add: finder_by_id_def example_world_def)

section \<open>Claims\<close>

text \<open>
  C1. When the find function returns an empty (falsy) result, \<^verbatim>\<open>update_by_params\<close> raises
  \<open>NoResultFound\<close> and the world it leaves is the one the find function left: no attribute
  of any instance is set and the session's \<^verbatim>\<open>add\<close> is not called (the result does not
  depend on the session). \<^verbatim>\<open>delete_by_params\<close> raises the same error and leaves the
  instances and the persistence state as the find function left them, and so do
  \<^verbatim>\<open>update_by_id\<close> and \<^verbatim>\<open>delete_by_id\<close> for the filter spec they build.
\<close>

theorem not_found_raises:
  assumes "find_func session_obj model_cls params (instances w, backend w) = (Inr v, (i1, b1))"
    and "\<not> truthy v"
  shows "update_by_params session_obj model_cls find_func flds params data w =
           (Inl NoResultFound, w\<lparr>instances := i1, backend := b1\<rparr>)
       \<and> fst (delete_by_params session_obj model_cls find_func flds params odata w) =
           Inl NoResultFound
       \<and> instances (snd (delete_by_params session_obj model_cls find_func flds params odata w)) = i1
       \<and> backend (snd (delete_by_params session_obj model_cls find_func flds params odata w)) = b1
       \<and> (params = [[(''id'', [(''$eq'', the_id)])]] \<longrightarrow>
            update_by_id session_obj model_cls find_func flds the_id data w =
              (Inl NoResultFound, w\<lparr>instances := i1, backend := b1\<rparr>)
          \<and> fst (delete_by_id session_obj model_cls find_func flds the_id odata w) =
              Inl NoResultFound
          \<and> instances (snd (delete_by_id session_obj model_cls find_func flds the_id odata w)) = i1
          \<and> backend (snd (delete_by_id session_obj model_cls find_func flds the_id odata w)) = b1)"
proof -
  have u: "\<And>d w0. instances w0 = instances w \<Longrightarrow> backend w0 = backend w \<Longrightarrow>
      update_by_params session_obj model_cls find_func flds params d w0 =
           (Inl NoResultFound, w0\<lparr>instances := i1, backend := b1\<rparr>)"
    using assms by (simp add: update_by_params_def call_eq)
  have d: "fst (delete_by_params session_obj model_cls find_func flds params odata w) =
           Inl NoResultFound
       \<and> instances (snd (delete_by_params session_obj model_cls find_func flds params odata w)) = i1
       \<and> backend (snd (delete_by_params session_obj model_cls find_func flds params odata w)) = b1"
    by (simp add: delete_by_params_def u)
  show ?thesis using u [of w data] d by (auto simp add: update_by_id_def delete_by_id_def)
qed

theorem not_found_raises_witness:
  "finder_by_id recording_session (plain_model Map.empty) [[(''id'', [(''$eq'', VInt 8)])]]
      (instances example_world, backend example_world) =
      (Inr VNone, (instances example_world, backend example_world))
   \<and> \<not> truthy VNone
   \<and> update_by_id recording_session (plain_model Map.empty) finder_by_id [''name''] (VInt 8) 0
        example_world = (Inl NoResultFound, example_world)
   \<and> fst (delete_by_id recording_session (plain_model Map.empty) finder_by_id
        [''name'', ''removed'', ''removed_at''] (VInt 8) (Some 2) example_world) = Inl NoResultFound
   \<and> instances (snd (delete_by_id recording_session (plain_model Map.empty) finder_by_id
        [''name'', ''removed'', ''removed_at''] (VInt 8) (Some 2) example_world)) =
        instances example_world
   \<and> backend (snd (delete_by_id recording_session (plain_model Map.empty) finder_by_id
        [''name'', ''removed'', ''removed_at''] (VInt 8) (Some 2) example_world)) = []"
proof -
  have f: "finder_by_id recording_session (plain_model Map.empty) [[(''id'', [(''$eq'', VInt 8)])]]
      (instances example_world, backend example_world) =
      (Inr VNone, (instances example_world, backend example_world))"
    by (simp add: finder_by_id_def example_world_def)
  have t: "\<not> truthy VNone" by simp
  have b: "backend example_world = []" by (simp add: example_world_def)
  show ?thesis
    using not_found_raises [where find_func = finder_by_id and session_obj = recording_session
        and model_cls = "plain_model Map.empty" and w = example_world and v = VNone
        and params = "[[(''id'', [(''$eq'', VInt 8)])]]" and the_id = "VInt 8"
        and flds = "[''name'']" and data = 0 and odata = "Some 2", OF f t]
      not_found_raises [where find_func = finder_by_id and session_obj = recording_session
        and model_cls = "plain_model Map.empty" and w = example_world and v = VNone
        and params = "[[(''id'', [(''$eq'', VInt 8)])]]" and the_id = "VInt 8"
        and flds = "[''name'', ''removed'', ''removed_at'']" and data = 0 and odata = "Some 2",
        OF f t] f t b
    by simp
qed

text \<open>
  C6. \<^verbatim>\<open>update_by_id\<close> is \<^verbatim>\<open>update_by_params\<close> with the filter spec
  \<^verbatim>\<open>[{"id": {"$eq": _id}}]\<close>, and \<^verbatim>\<open>delete_by_id\<close> is \<^verbatim>\<open>delete_by_params\<close> with
  the same filter spec: the same result (value or error) and the same final world.
\<close>

theorem by_id_is_by_params:
  "update_by_id session_obj model_cls find_func flds the_id data w =
     update_by_params session_obj model_cls find_func flds [[(''id'', [(''$eq'', the_id)])]] data w
   \<and> delete_by_id session_obj model_cls find_func flds the_id odata w =
     delete_by_params session_obj model_cls find_func flds [[(''id'', [(''$eq'', the_id)])]] odata w"
  by (simp add: update_by_id_def delete_by_id_def)

text \<open>
  C2. When the model class can be instantiated, \<^verbatim>\<open>save\<close> hands the new instance to the
  session's \<^verbatim>\<open>add\<close> with these attributes: every name of the whitelist that is a key of
  the payload has the payload's value, every name of the whitelist that is not has the
  value the fresh instance had (the default). The result of \<^verbatim>\<open>save\<close> is that instance,
  or the error the session's \<^verbatim>\<open>add\<close> raised: \<^verbatim>\<open>save\<close> raises nothing of its own.
\<close>

theorem save_creates:
  assumes "init model_cls (instances w, backend w) = (Inr r, (i1, b1))" and "r < length i1"
  shows "\<exists>a. save session_obj model_cls flds data w =
             add_and_return session_obj (VObj r) (w\<lparr>instances := i1[r := a], backend := b1\<rparr>)
         \<and> i1[r := a] ! r = a
         \<and> (\<forall>name \<in> set flds.
               a name = (case (dicts w ! data) name of Some v \<Rightarrow> Some v | None \<Rightarrow> (i1 ! r) name))
         \<and> fst (save session_obj model_cls flds data w) =
             (case fst (add session_obj (VObj r) (i1[r := a], b1)) of
                Inl e \<Rightarrow> Inl e | Inr u \<Rightarrow> Inr (VObj r))"
proof (intro exI conjI)
  show "save session_obj model_cls flds data w =
      add_and_return session_obj (VObj r)
       (w\<lparr>instances := i1[r := assigned flds (dicts w ! data) (i1 ! r)], backend := b1\<rparr>)"
    using assms(1) by (rule save_instantiated)
  show "i1[r := assigned flds (dicts w ! data) (i1 ! r)] ! r = assigned flds (dicts w ! data) (i1 ! r)"
    using assms(2) by simp
  show "\<forall>name \<in> set flds. assigned flds (dicts w ! data) (i1 ! r) name =
      (case (dicts w ! data) name of Some v \<Rightarrow> Some v | None \<Rightarrow> (i1 ! r) name)"
    by (simp add: assigned_apply split: option.splits)
  show "fst (save session_obj model_cls flds data w) =
      (case fst (add session_obj (VObj r) (i1[r := assigned flds (dicts w ! data) (i1 ! r)], b1)) of
         Inl e \<Rightarrow> Inl e | Inr u \<Rightarrow> Inr (VObj r))"
    using assms(1) by (simp add: save_instantiated add_and_return_fst)
qed

theorem save_creates_witness:
  "init (plain_model [''removed'' \<mapsto> VBool False]) (instances example_world, backend example_world) =
     (Inr 1, (instances example_world @ [[''removed'' \<mapsto> VBool False]], backend example_world))
   \<and> (1::nat) < length (instances example_world @ [[''removed'' \<mapsto> VBool False]])
   \<and> fst (save recording_session (plain_model [''removed'' \<mapsto> VBool False])
        [''name'', ''removed''] 0 example_world) = Inr (VObj 1)
   \<and> (instances (snd (save recording_session (plain_model [''removed'' \<mapsto> VBool False])
        [''name'', ''removed''] 0 example_world)) ! 1) ''name'' = Some (VStr ''b'')
   \<and> (instances (snd (save recording_session (plain_model [''removed'' \<mapsto> VBool False])
        [''name'', ''removed''] 0 example_world)) ! 1) ''removed'' = Some (VBool False)
   \<and> backend (snd (save recording_session (plain_model [''removed'' \<mapsto> VBool False])
        [''name'', ''removed''] 0 example_world)) = [VObj 1]"
proof -
  have h1: "init (plain_model [''removed'' \<mapsto> VBool False])
      (instances example_world, backend example_world) =
     (Inr 1, (instances example_world @ [[''removed'' \<mapsto> VBool False]], backend example_world))"
    by (simp add: plain_model_def example_world_def)
  have h2: "(1::nat) < length (instances example_world @ [[''removed'' \<mapsto> VBool False]])"
    by (simp add: example_world_def)
  have d: "dicts example_world ! 0 = [''name'' \<mapsto> VStr ''b'', ''secret'' \<mapsto> VInt 1]"
    by (simp add: example_world_def)
  obtain a where
    s: "save recording_session (plain_model [''removed'' \<mapsto> VBool False]) [''name'', ''removed''] 0
          example_world =
        add_and_return recording_session (VObj 1)
          (example_world\<lparr>instances := (instances example_world @ [[''removed'' \<mapsto> VBool False]])[1 := a],
             backend := backend example_world\<rparr>)"
    and n: "(instances example_world @ [[''removed'' \<mapsto> VBool False]])[1 := a] ! 1 = a"
    and a: "\<forall>name \<in> set [''name'', ''removed''].
         a name = (case (dicts example_world ! 0) name of Some v \<Rightarrow> Some v
                   | None \<Rightarrow> ((instances example_world @ [[''removed'' \<mapsto> VBool False]]) ! 1) name)"
    using save_creates [where model_cls = "plain_model [''removed'' \<mapsto> VBool False]"
        and w = example_world and session_obj = recording_session
        and flds = "[''name'', ''removed'']" and data = 0, OF h1 h2]
    by blast
  have a1: "a ''name'' = Some (VStr ''b'')" using a d by (simp add: example_world_def)
  have a2: "a ''removed'' = Some (VBool False)" using a d by (simp add: example_world_def)
  have i: "instances example_world @ [[''removed'' \<mapsto> VBool False]] =
      [[''id'' \<mapsto> VInt 7, ''name'' \<mapsto> VStr ''a'', ''removed'' \<mapsto> VBool False], [''removed'' \<mapsto> VBool False]]"
    by (simp add: example_world_def)
  have b: "backend example_world = []" by (simp add: example_world_def)
  have r: "save recording_session (plain_model [''removed'' \<mapsto> VBool False]) [''name'', ''removed''] 0
          example_world =
        (Inr (VObj 1), example_world\<lparr>instances :=
           (instances example_world @ [[''removed'' \<mapsto> VBool False]])[1 := a], backend := [VObj 1]\<rparr>)"
    using s b by (simp add: add_and_return_def call_def recording_session_def)
  show ?thesis
    using h1 h2 a1 a2 n by (simp add: r)
qed

text \<open>
  C3. Keys of the payload that are not in the whitelist are never set. The instance that
  \<^verbatim>\<open>save\<close> hands to the session has, for every name outside the whitelist, the value the
  fresh instance had; the record that \<^verbatim>\<open>update_by_params\<close> hands to the session has, for
  every name outside the whitelist, the value it had when the find function returned it.
  No other instance is touched.
\<close>

theorem unlisted_keys_ignored:
  "(init model_cls (instances w, backend w) = (Inr r, (i1, b1)) \<and> r < length i1 \<longrightarrow>
      (\<exists>a. save session_obj model_cls flds data w =
             add_and_return session_obj (VObj r) (w\<lparr>instances := i1[r := a], backend := b1\<rparr>)
         \<and> i1[r := a] ! r = a
         \<and> (\<forall>k. k \<notin> set flds \<longrightarrow> a k = (i1 ! r) k)))
   \<and> (find_func session_obj model_cls params (instances w, backend w) = (Inr (VObj r'), (i2, b2))
        \<and> r' < length i2 \<longrightarrow>
      (\<exists>a. update_by_params session_obj model_cls find_func flds params data w =
             add_and_return session_obj (VObj r') (w\<lparr>instances := i2[r' := a], backend := b2\<rparr>)
         \<and> i2[r' := a] ! r' = a
         \<and> (\<forall>k. k \<notin> set flds \<longrightarrow> a k = (i2 ! r') k)))"
proof (intro conjI impI)
  assume h: "init model_cls (instances w, backend w) = (Inr r, (i1, b1)) \<and> r < length i1"
  show "\<exists>a. save session_obj model_cls flds data w =
             add_and_return session_obj (VObj r) (w\<lparr>instances := i1[r := a], backend := b1\<rparr>)
         \<and> i1[r := a] ! r = a
         \<and> (\<forall>k. k \<notin> set flds \<longrightarrow> a k = (i1 ! r) k)"
    using h save_instantiated [of model_cls w r i1 b1 session_obj flds data]
    by (intro exI [of _ "assigned flds (dicts w ! data) (i1 ! r)"]) (simp add: assigned_apply)
next
  assume h: "find_func session_obj model_cls params (instances w, backend w) = (Inr (VObj r'), (i2, b2))
        \<and> r' < length i2"
  show "\<exists>a. update_by_params session_obj model_cls find_func flds params data w =
             add_and_return session_obj (VObj r') (w\<lparr>instances := i2[r' := a], backend := b2\<rparr>)
         \<and> i2[r' := a] ! r' = a
         \<and> (\<forall>k. k \<notin> set flds \<longrightarrow> a k = (i2 ! r') k)"
    using h update_by_params_found [of find_func session_obj model_cls params w r' i2 b2 flds data]
    by (intro exI [of _ "assigned flds (dicts w ! data) (i2 ! r')"]) (simp add: assigned_apply)
qed

theorem unlisted_keys_ignored_witness:
  "init (plain_model Map.empty) (instances example_world, backend example_world) =
     (Inr 1, (instances example_world @ [Map.empty], backend example_world))
   \<and> (1::nat) < length (instances example_world @ [Map.empty])
   \<and> finder_by_id recording_session (plain_model Map.empty) [[(''id'', [(''$eq'', VInt 7)])]]
      (instances example_world, backend example_world) =
     (Inr (VObj 0), (instances example_world, backend example_world))
   \<and> (0::nat) < length (instances example_world)
   \<and> ''secret'' \<notin> set [''name'']
   \<and> (dicts example_world ! 0) ''secret'' = Some (VInt 1)
   \<and> (instances (snd (save recording_session (plain_model Map.empty) [''name''] 0 example_world)) ! 1)
        ''secret'' = None
   \<and> (instances (snd (update_by_params recording_session (plain_model Map.empty) finder_by_id
        [''name''] [[(''id'', [(''$eq'', VInt 7)])]] 0 example_world)) ! 0) ''secret'' = None"
proof -
  have l1: "(1::nat) < length (instances example_world @ [Map.empty])"
    by (simp add: example_world_def)
  have l0: "(0::nat) < length (instances example_world)"
    by (simp add: example_world_def)
  have k: "''secret'' \<notin> set [''name'']" by simp
  have d: "(dicts example_world ! 0) ''secret'' = Some (VInt 1)" by (simp add: example_world_def)
  note t = unlisted_keys_ignored [where model_cls = "plain_model Map.empty" and w = example_world
      and session_obj = recording_session and find_func = finder_by_id and flds = "[''name'']"
      and data = 0 and params = "[[(''id'', [(''$eq'', VInt 7)])]]" and r = 1 and r' = 0
      and ?i1.0 = "instances example_world @ [Map.empty]" and ?b1.0 = "backend example_world"
      and ?i2.0 = "instances example_world" and ?b2.0 = "backend example_world"]
  obtain a where
    s: "save recording_session (plain_model Map.empty) [''name''] 0 example_world =
          add_and_return recording_session (VObj 1)
            (example_world\<lparr>instances := (instances example_world @ [Map.empty])[1 := a],
               backend := backend example_world\<rparr>)"
    and n: "(instances example_world @ [Map.empty])[1 := a] ! 1 = a"
    and a: "\<forall>k. k \<notin> set [''name''] \<longrightarrow> a k = ((instances example_world @ [Map.empty]) ! 1) k"
    using t example_init l1 by blast
  obtain a' where
    s': "update_by_params recording_session (plain_model Map.empty) finder_by_id [''name'']
           [[(''id'', [(''$eq'', VInt 7)])]] 0 example_world =
          add_and_return recording_session (VObj 0)
            (example_world\<lparr>instances := (instances example_world)[0 := a'],
               backend := backend example_world\<rparr>)"
    and n': "(instances example_world)[0 := a'] ! 0 = a'"
    and a': "\<forall>k. k \<notin> set [''name''] \<longrightarrow> a' k = (instances example_world ! 0) k"
    using t example_find l0 by blast
  have 1: "a ''secret'' = None" using a k by (simp add: example_world_def)
  have 2: "a' ''secret'' = None" using a' k by (simp add: example_world_def)
  show ?thesis
    using example_init example_find l1 l0 d n n' 1 2 by (simp add: s s' recording_add)
qed

text \<open>
  C4. \<^verbatim>\<open>delete_by_id\<close> with no extra data is \<^verbatim>\<open>update_by_params\<close> on the filter spec
  \<^verbatim>\<open>[{"id": {"$eq": _id}}]\<close> with a fresh dict that is exactly
  \<^verbatim>\<open>{"removed": True, "removed_at": T}\<close>, \<open>T\<close> the time read at the call. When the find
  function locates a record, the record handed to the session has \<^verbatim>\<open>removed\<close> and
  \<^verbatim>\<open>removed_at\<close> set to these values where the whitelist lists them, and every other
  attribute as the find function returned it.
\<close>

theorem delete_by_id_payload:
  "delete_by_id session_obj model_cls find_func flds the_id None w =
     update_by_params session_obj model_cls find_func flds [[(''id'', [(''$eq'', the_id)])]]
       (length (dicts w))
       (w\<lparr>dicts := dicts w @ [[''removed'' \<mapsto> VBool True, ''removed_at'' \<mapsto> VDatetime (clock w)]]\<rparr>)
   \<and> (dicts w @ [[''removed'' \<mapsto> VBool True, ''removed_at'' \<mapsto> VDatetime (clock w)]]) !
         length (dicts w) = [''removed'' \<mapsto> VBool True, ''removed_at'' \<mapsto> VDatetime (clock w)]
   \<and> (find_func session_obj model_cls [[(''id'', [(''$eq'', the_id)])]] (instances w, backend w) =
          (Inr (VObj r), (i1, b1)) \<and> r < length i1 \<longrightarrow>
        (\<exists>a. delete_by_id session_obj model_cls find_func flds the_id None w =
               add_and_return session_obj (VObj r)
                 (w\<lparr>dicts := dicts w @
                       [[''removed'' \<mapsto> VBool True, ''removed_at'' \<mapsto> VDatetime (clock w)]],
                    instances := i1[r := a], backend := b1\<rparr>)
           \<and> i1[r := a] ! r = a
           \<and> a ''removed'' =
               (if ''removed'' \<in> set flds then Some (VBool True) else (i1 ! r) ''removed'')
           \<and> a ''removed_at'' =
               (if ''removed_at'' \<in> set flds then Some (VDatetime (clock w))
                else (i1 ! r) ''removed_at'')
           \<and> (\<forall>k. k \<noteq> ''removed'' \<and> k \<noteq> ''removed_at'' \<longrightarrow> a k = (i1 ! r) k)))"
proof (intro conjI impI)
  let ?p = "[''removed'' \<mapsto> VBool True, ''removed_at'' \<mapsto> VDatetime (clock w)]"
  let ?w = "w\<lparr>dicts := dicts w @ [?p]\<rparr>"
  show e: "delete_by_id session_obj model_cls find_func flds the_id None w =
     update_by_params session_obj model_cls find_func flds [[(''id'', [(''$eq'', the_id)])]]
       (length (dicts w)) ?w"
    by (simp add: delete_by_id_def delete_by_params_fresh)
  show "(dicts w @ [?p]) ! length (dicts w) = ?p" by simp
  assume h: "find_func session_obj model_cls [[(''id'', [(''$eq'', the_id)])]] (instances w, backend w) =
          (Inr (VObj r), (i1, b1)) \<and> r < length i1"
  then have f: "find_func session_obj model_cls [[(''id'', [(''$eq'', the_id)])]]
      (instances ?w, backend ?w) = (Inr (VObj r), (i1, b1))" by simp
  have u: "update_by_params session_obj model_cls find_func flds [[(''id'', [(''$eq'', the_id)])]]
       (length (dicts w)) ?w =
     add_and_return session_obj (VObj r)
       (?w\<lparr>instances := i1[r := assigned flds (dicts ?w ! length (dicts w)) (i1 ! r)], backend := b1\<rparr>)"
    using f by (rule update_by_params_found)
  have p: "dicts ?w ! length (dicts w) = ?p" by simp
  show "\<exists>a. delete_by_id session_obj model_cls find_func flds the_id None w =
               add_and_return session_obj (VObj r) (?w\<lparr>instances := i1[r := a], backend := b1\<rparr>)
           \<and> i1[r := a] ! r = a
           \<and> a ''removed'' =
               (if ''removed'' \<in> set flds then Some (VBool True) else (i1 ! r) ''removed'')
           \<and> a ''removed_at'' =
               (if ''removed_at'' \<in> set flds then Some (VDatetime (clock w))
                else (i1 ! r) ''removed_at'')
           \<and> (\<forall>k. k \<noteq> ''removed'' \<and> k \<noteq> ''removed_at'' \<longrightarrow> a k = (i1 ! r) k)"
  proof (intro exI [of _ "assigned flds ?p (i1 ! r)"] conjI)
    show "delete_by_id session_obj model_cls find_func flds the_id None w =
        add_and_return session_obj (VObj r) (?w\<lparr>instances := i1[r := assigned flds ?p (i1 ! r)], backend := b1\<rparr>)"
      using e u p by simp
    show "i1[r := assigned flds ?p (i1 ! r)] ! r = assigned flds ?p (i1 ! r)" using h by simp
    show "assigned flds ?p (i1 ! r) ''removed'' =
        (if ''removed'' \<in> set flds then Some (VBool True) else (i1 ! r) ''removed'')"
      by (simp add: assigned_apply)
    show "assigned flds ?p (i1 ! r) ''removed_at'' =
        (if ''removed_at'' \<in> set flds then Some (VDatetime (clock w)) else (i1 ! r) ''removed_at'')"
      by (simp add: assigned_apply)
    show "\<forall>k. k \<noteq> ''removed'' \<and> k \<noteq> ''removed_at'' \<longrightarrow> assigned flds ?p (i1 ! r) k = (i1 ! r) k"
      by (simp add: assigned_apply)
  qed
qed

theorem delete_by_id_payload_witness:
  "finder_by_id recording_session (plain_model Map.empty) [[(''id'', [(''$eq'', VInt 7)])]]
      (instances example_world, backend example_world) =
     (Inr (VObj 0), (instances example_world, backend example_world))
   \<and> (0::nat) < length (instances example_world)
   \<and> fst (delete_by_id recording_session (plain_model Map.empty) finder_by_id
        [''name'', ''removed'', ''removed_at''] (VInt 7) None example_world) = Inr (VObj 0)
   \<and> (instances (snd (delete_by_id recording_session (plain_model Map.empty) finder_by_id
        [''name'', ''removed'', ''removed_at''] (VInt 7) None example_world)) ! 0) ''name'' =
        Some (VStr ''a'')
   \<and> (instances (snd (delete_by_id recording_session (plain_model Map.empty) finder_by_id
        [''name'', ''removed'', ''removed_at''] (VInt 7) None example_world)) ! 0) ''removed'' =
        Some (VBool True)
   \<and> (instances (snd (delete_by_id recording_session (plain_model Map.empty) finder_by_id
        [''name'', ''removed'', ''removed_at''] (VInt 7) None example_world)) ! 0) ''removed_at'' =
        Some (VDatetime 1000)
   \<and> backend (snd (delete_by_id recording_session (plain_model Map.empty) finder_by_id
        [''name'', ''removed'', ''removed_at''] (VInt 7) None example_world)) = [VObj 0]"
proof -
  have l0: "(0::nat) < length (instances example_world)"
    by (simp add: example_world_def)
  obtain a where
    s: "delete_by_id recording_session (plain_model Map.empty) finder_by_id
          [''name'', ''removed'', ''removed_at''] (VInt 7) None example_world =
        add_and_return recording_session (VObj 0)
          (example_world\<lparr>dicts := dicts example_world @
               [[''removed'' \<mapsto> VBool True, ''removed_at'' \<mapsto> VDatetime (clock example_world)]],
             instances := (instances example_world)[0 := a], backend := backend example_world\<rparr>)"
    and n: "(instances example_world)[0 := a] ! 0 = a"
    and a1: "a ''removed'' = (if ''removed'' \<in> set [''name'', ''removed'', ''removed_at'']
          then Some (VBool True) else (instances example_world ! 0) ''removed'')"
    and a2: "a ''removed_at'' = (if ''removed_at'' \<in> set [''name'', ''removed'', ''removed_at'']
          then Some (VDatetime (clock example_world)) else (instances example_world ! 0) ''removed_at'')"
    and a3: "\<forall>k. k \<noteq> ''removed'' \<and> k \<noteq> ''removed_at'' \<longrightarrow> a k = (instances example_world ! 0) k"
    using delete_by_id_payload [where session_obj = recording_session
        and model_cls = "plain_model Map.empty" and find_func = finder_by_id
        and flds = "[''name'', ''removed'', ''removed_at'']" and the_id = "VInt 7"
        and w = example_world and r = 0 and ?i1.0 = "instances example_world"
        and ?b1.0 = "backend example_world"] example_find l0
    by blast
  have 1: "a ''removed'' = Some (VBool True)" using a1 by simp
  have 2: "a ''removed_at'' = Some (VDatetime 1000)" using a2 by (simp add: example_world_def)
  have 3: "a ''name'' = Some (VStr ''a'')" using a3 by (simp add: example_world_def)
  have b: "backend example_world = []" by (simp add: example_world_def)
  show ?thesis
    using example_find l0 n 1 2 3 b by (simp add: s recording_add)
qed

text \<open>
  C5. With a non-empty dict of extra data, \<^verbatim>\<open>delete_by_params\<close> and \<^verbatim>\<open>delete_by_id\<close>
  are \<^verbatim>\<open>update_by_params\<close> with a payload in which \<^verbatim>\<open>removed\<close> is \<^verbatim>\<open>True\<close> and
  \<^verbatim>\<open>removed_at\<close> is the time read at the call, whatever the caller had under these keys,
  and in which every other key has the caller's value.
\<close>

theorem delete_extra_data_payload:
  assumes "d < length (dicts w)" and "dicts w ! d \<noteq> Map.empty"
  shows "\<exists>p. delete_by_params session_obj model_cls find_func flds params (Some d) w =
             update_by_params session_obj model_cls find_func flds params d
               (w\<lparr>dicts := (dicts w)[d := p]\<rparr>)
         \<and> delete_by_id session_obj model_cls find_func flds the_id (Some d) w =
             update_by_params session_obj model_cls find_func flds [[(''id'', [(''$eq'', the_id)])]] d
               (w\<lparr>dicts := (dicts w)[d := p]\<rparr>)
         \<and> (dicts w)[d := p] ! d = p
         \<and> p ''removed'' = Some (VBool True)
         \<and> p ''removed_at'' = Some (VDatetime (clock w))
         \<and> (\<forall>k. k \<noteq> ''removed'' \<and> k \<noteq> ''removed_at'' \<longrightarrow> p k = (dicts w ! d) k)"
proof (intro exI [of _ "dicts w ! d ++ [''removed'' \<mapsto> VBool True, ''removed_at'' \<mapsto> VDatetime (clock w)]"]
    conjI)
  let ?p = "dicts w ! d ++ [''removed'' \<mapsto> VBool True, ''removed_at'' \<mapsto> VDatetime (clock w)]"
  show "delete_by_params session_obj model_cls find_func flds params (Some d) w =
      update_by_params session_obj model_cls find_func flds params d (w\<lparr>dicts := (dicts w)[d := ?p]\<rparr>)"
    using assms(2) by (rule delete_by_params_merge)
  show "delete_by_id session_obj model_cls find_func flds the_id (Some d) w =
      update_by_params session_obj model_cls find_func flds [[(''id'', [(''$eq'', the_id)])]] d
        (w\<lparr>dicts := (dicts w)[d := ?p]\<rparr>)"
    using assms(2) by (simp add: delete_by_id_def delete_by_params_merge)
  show "(dicts w)[d := ?p] ! d = ?p" using assms(1) by simp
  show "?p ''removed'' = Some (VBool True)" by simp
  show "?p ''removed_at'' = Some (VDatetime (clock w))" by simp
  show "\<forall>k. k \<noteq> ''removed'' \<and> k \<noteq> ''removed_at'' \<longrightarrow> ?p k = (dicts w ! d) k"
    by (simp add: map_add_def)
qed

theorem delete_extra_data_payload_witness:
  "(2::nat) < length (dicts example_world)
   \<and> dicts example_world ! 2 \<noteq> Map.empty
   \<and> (dicts example_world ! 2) ''removed'' = Some (VBool False)
   \<and> (\<exists>p. delete_by_id recording_session (plain_model Map.empty) finder_by_id
            [''name'', ''removed'', ''removed_at''] (VInt 7) (Some 2) example_world =
          update_by_params recording_session (plain_model Map.empty) finder_by_id
            [''name'', ''removed'', ''removed_at''] [[(''id'', [(''$eq'', VInt 7)])]] 2
            (example_world\<lparr>dicts := (dicts example_world)[2 := p]\<rparr>)
        \<and> p ''removed'' = Some (VBool True)
        \<and> p ''removed_at'' = Some (VDatetime 1000)
        \<and> p ''note'' = Some (VStr ''x''))"
proof -
  have l: "(2::nat) < length (dicts example_world)" by (simp add: example_world_def)
  have ne: "dicts example_world ! 2 \<noteq> Map.empty" by (simp add: example_extra)
  have c: "clock example_world = 1000" by (simp add: example_world_def)
  obtain p where
    s: "delete_by_id recording_session (plain_model Map.empty) finder_by_id
            [''name'', ''removed'', ''removed_at''] (VInt 7) (Some 2) example_world =
          update_by_params recording_session (plain_model Map.empty) finder_by_id
            [''name'', ''removed'', ''removed_at''] [[(''id'', [(''$eq'', VInt 7)])]] 2
            (example_world\<lparr>dicts := (dicts example_world)[2 := p]\<rparr>)"
    and p1: "p ''removed'' = Some (VBool True)"
    and p2: "p ''removed_at'' = Some (VDatetime (clock example_world))"
    and p3: "\<forall>k. k \<noteq> ''removed'' \<and> k \<noteq> ''removed_at'' \<longrightarrow> p k = (dicts example_world ! 2) k"
    using delete_extra_data_payload [OF l ne, where session_obj = recording_session
        and model_cls = "plain_model Map.empty" and find_func = finder_by_id
        and flds = "[''name'', ''removed'', ''removed_at'']" and the_id = "VInt 7"]
    by blast
  have p4: "p ''note'' = Some (VStr ''x'')" using p3 by (simp add: example_extra)
  show ?thesis using l ne s p1 p2 p4 c by (auto simp add: example_extra)
qed

text \<open>
  C9. A non-empty dict passed as extra data to \<^verbatim>\<open>delete_by_params\<close> or
  \<^verbatim>\<open>delete_by_id\<close> is written in place: after the call, whatever the find function and the
  session did, the caller's dict holds \<^verbatim>\<open>removed\<close> (\<^verbatim>\<open>True\<close>) and \<^verbatim>\<open>removed_at\<close>
  (the time read at the call), its other keys are as they were, and no other dict changed.
\<close>

theorem delete_mutates_extra_data:
  assumes "d < length (dicts w)" and "dicts w ! d \<noteq> Map.empty"
  shows "dicts (snd (delete_by_params session_obj model_cls find_func flds params (Some d) w)) =
           (dicts w)[d := (dicts w ! d)(''removed'' \<mapsto> VBool True,
                                        ''removed_at'' \<mapsto> VDatetime (clock w))]
       \<and> dicts (snd (delete_by_id session_obj model_cls find_func flds the_id (Some d) w)) =
           (dicts w)[d := (dicts w ! d)(''removed'' \<mapsto> VBool True,
                                        ''removed_at'' \<mapsto> VDatetime (clock w))]
       \<and> (dicts (snd (delete_by_params session_obj model_cls find_func flds params (Some d) w)) ! d)
           ''removed'' = Some (VBool True)
       \<and> (dicts (snd (delete_by_params session_obj model_cls find_func flds params (Some d) w)) ! d)
           ''removed_at'' = Some (VDatetime (clock w))"
proof -
  have m: "dicts w ! d ++ [''removed'' \<mapsto> VBool True, ''removed_at'' \<mapsto> VDatetime (clock w)] =
      (dicts w ! d)(''removed'' \<mapsto> VBool True, ''removed_at'' \<mapsto> VDatetime (clock w))"
    by simp
  have p: "\<And>ps. dicts (snd (delete_by_params session_obj model_cls find_func flds ps (Some d) w)) =
           (dicts w)[d := (dicts w ! d)(''removed'' \<mapsto> VBool True,
                                        ''removed_at'' \<mapsto> VDatetime (clock w))]"
  proof -
    fix ps
    have "delete_by_params session_obj model_cls find_func flds ps (Some d) w =
        update_by_params session_obj model_cls find_func flds ps d
          (w\<lparr>dicts := (dicts w)[d := dicts w ! d ++
             [''removed'' \<mapsto> VBool True, ''removed_at'' \<mapsto> VDatetime (clock w)]]\<rparr>)"
      using assms(2) by (rule delete_by_params_merge)
    then show "dicts (snd (delete_by_params session_obj model_cls find_func flds ps (Some d) w)) =
           (dicts w)[d := (dicts w ! d)(''removed'' \<mapsto> VBool True,
                                        ''removed_at'' \<mapsto> VDatetime (clock w))]"
      by (simp only: update_by_params_dicts m) simp
  qed
  show ?thesis using assms(1) by (simp add: p delete_by_id_def)
qed

theorem delete_mutates_extra_data_witness:
  "(2::nat) < length (dicts example_world)
   \<and> dicts example_world ! 2 \<noteq> Map.empty
   \<and> (dicts example_world ! 2) ''removed'' = Some (VBool False)
   \<and> (dicts example_world ! 2) ''removed_at'' = None
   \<and> (dicts (snd (delete_by_params recording_session (plain_model Map.empty) finder_by_id
          [''name'', ''removed'', ''removed_at''] [[(''id'', [(''$eq'', VInt 7)])]] (Some 2)
          example_world)) ! 2) ''removed'' = Some (VBool True)
   \<and> (dicts (snd (delete_by_params recording_session (plain_model Map.empty) finder_by_id
          [''name'', ''removed'', ''removed_at''] [[(''id'', [(''$eq'', VInt 7)])]] (Some 2)
          example_world)) ! 2) ''removed_at'' = Some (VDatetime 1000)"
proof -
  have l: "(2::nat) < length (dicts example_world)" by (simp add: example_world_def)
  have ne: "dicts example_world ! 2 \<noteq> Map.empty" by (simp add: example_extra)
  have c: "clock example_world = 1000" by (simp add: example_world_def)
  show ?thesis
    using l ne c delete_mutates_extra_data [OF l ne, where session_obj = recording_session
        and model_cls = "plain_model Map.empty" and find_func = finder_by_id
        and flds = "[''name'', ''removed'', ''removed_at'']"
        and params = "[[(''id'', [(''$eq'', VInt 7)])]]" and the_id = "VInt 7"]
    by (simp add: example_extra)
qed

text \<open>
  C10. An empty dict passed as extra data is treated as no extra data: the call is the call
  with \<^verbatim>\<open>None\<close>, the payload is a fresh dict \<^verbatim>\<open>{"removed": True, "removed_at": T}\<close>,
  and the caller's dict stays empty.
\<close>

theorem delete_empty_extra_data:
  assumes "dicts w ! d = Map.empty"
  shows "delete_by_params session_obj model_cls find_func flds params (Some d) w =
           delete_by_params session_obj model_cls find_func flds params None w
       \<and> delete_by_id session_obj model_cls find_func flds the_id (Some d) w =
           delete_by_id session_obj model_cls find_func flds the_id None w
       \<and> delete_by_params session_obj model_cls find_func flds params (Some d) w =
           update_by_params session_obj model_cls find_func flds params (length (dicts w))
             (w\<lparr>dicts := dicts w @
                [[''removed'' \<mapsto> VBool True, ''removed_at'' \<mapsto> VDatetime (clock w)]]\<rparr>)
       \<and> dicts (snd (delete_by_params session_obj model_cls find_func flds params (Some d) w)) =
           dicts w @ [[''removed'' \<mapsto> VBool True, ''removed_at'' \<mapsto> VDatetime (clock w)]]
       \<and> (d < length (dicts w) \<longrightarrow>
            dicts (snd (delete_by_params session_obj model_cls find_func flds params (Some d) w)) ! d =
              Map.empty
          \<and> dicts (snd (delete_by_id session_obj model_cls find_func flds the_id (Some d) w)) ! d =
              Map.empty)"
proof -
  have f: "\<And>ps. delete_by_params session_obj model_cls find_func flds ps (Some d) w =
           update_by_params session_obj model_cls find_func flds ps (length (dicts w))
             (w\<lparr>dicts := dicts w @
                [[''removed'' \<mapsto> VBool True, ''removed_at'' \<mapsto> VDatetime (clock w)]]\<rparr>)"
    using assms by (simp add: delete_by_params_fresh)
  have n: "\<And>ps. delete_by_params session_obj model_cls find_func flds ps None w =
           update_by_params session_obj model_cls find_func flds ps (length (dicts w))
             (w\<lparr>dicts := dicts w @
                [[''removed'' \<mapsto> VBool True, ''removed_at'' \<mapsto> VDatetime (clock w)]]\<rparr>)"
    by (simp add: delete_by_params_fresh)
  have ds: "\<And>ps. dicts (snd (delete_by_params session_obj model_cls find_func flds ps (Some d) w)) =
           dicts w @ [[''removed'' \<mapsto> VBool True, ''removed_at'' \<mapsto> VDatetime (clock w)]]"
    by (simp only: f update_by_params_dicts) simp
  show ?thesis
    using assms by (simp add: n ds delete_by_id_def nth_append) (simp add: f)
qed

theorem delete_empty_extra_data_witness:
  "dicts example_world ! 1 = Map.empty
   \<and> (1::nat) < length (dicts example_world)
   \<and> delete_by_id recording_session (plain_model Map.empty) finder_by_id
        [''name'', ''removed'', ''removed_at''] (VInt 7) (Some 1) example_world =
      delete_by_id recording_session (plain_model Map.empty) finder_by_id
        [''name'', ''removed'', ''removed_at''] (VInt 7) None example_world
   \<and> dicts (snd (delete_by_id recording_session (plain_model Map.empty) finder_by_id
        [''name'', ''removed'', ''removed_at''] (VInt 7) (Some 1) example_world)) ! 1 = Map.empty"
proof -
  have e: "dicts example_world ! 1 = Map.empty" by (simp add: example_world_def)
  have l: "(1::nat) < length (dicts example_world)" by (simp add: example_world_def)
  note t = delete_empty_extra_data [OF e, where session_obj = recording_session
        and model_cls = "plain_model Map.empty" and find_func = finder_by_id
        and flds = "[''name'', ''removed'', ''removed_at'']"
        and params = "[[(''id'', [(''$eq'', VInt 7)])]]" and the_id = "VInt 7"]
  have 1: "delete_by_id recording_session (plain_model Map.empty) finder_by_id
        [''name'', ''removed'', ''removed_at''] (VInt 7) (Some 1) example_world =
      delete_by_id recording_session (plain_model Map.empty) finder_by_id
        [''name'', ''removed'', ''removed_at''] (VInt 7) None example_world"
    using t by blast
  have 2: "dicts (snd (delete_by_id recording_session (plain_model Map.empty) finder_by_id
        [''name'', ''removed'', ''removed_at''] (VInt 7) (Some 1) example_world)) ! 1 = Map.empty"
    using t l by blast
  show ?thesis using e l 1 2 by blast
qed

text \<open>
  C7, as stated, fails when the extra data has a key of the whitelist: with the whitelist
  \<^verbatim>\<open>["name"]\<close>, which has neither \<^verbatim>\<open>removed\<close> nor \<^verbatim>\<open>removed_at\<close>, and the extra
  data \<^verbatim>\<open>{"name": "b", "secret": 1}\<close>, the delete call on the located record returns it
  with \<^verbatim>\<open>name\<close> changed from "a" to "b".
\<close>

theorem delete_without_removal_fields_counterexample:
  "''removed'' \<notin> set [''name''] \<and> ''removed_at'' \<notin> set [''name'']
   \<and> finder_by_id recording_session (plain_model Map.empty) [[(''id'', [(''$eq'', VInt 7)])]]
        (instances example_world, backend example_world) =
       (Inr (VObj 0), (instances example_world, backend example_world))
   \<and> fst (delete_by_params recording_session (plain_model Map.empty) finder_by_id [''name'']
        [[(''id'', [(''$eq'', VInt 7)])]] (Some 0) example_world) = Inr (VObj 0)
   \<and> (instances example_world ! 0) ''name'' = Some (VStr ''a'')
   \<and> (instances (snd (delete_by_params recording_session (plain_model Map.empty) finder_by_id
        [''name''] [[(''id'', [(''$eq'', VInt 7)])]] (Some 0) example_world)) ! 0) ''name'' =
       Some (VStr ''b'')
   \<and> instances (snd (delete_by_params recording_session (plain_model Map.empty) finder_by_id
        [''name''] [[(''id'', [(''$eq'', VInt 7)])]] (Some 0) example_world)) ! 0 \<noteq>
       instances example_world ! 0"
proof -
  let ?w = "example_world\<lparr>dicts := (dicts example_world)[0 := dicts example_world ! 0 ++
          [''removed'' \<mapsto> VBool True, ''removed_at'' \<mapsto> VDatetime (clock example_world)]]\<rparr>"
  have ne: "dicts example_world ! 0 \<noteq> Map.empty" by (simp add: example_world_def)
  have f: "finder_by_id recording_session (plain_model Map.empty) [[(''id'', [(''$eq'', VInt 7)])]]
      (instances ?w, backend ?w) = (Inr (VObj 0), (instances example_world, backend example_world))"
    using example_find by simp
  have d: "delete_by_params recording_session (plain_model Map.empty) finder_by_id [''name'']
        [[(''id'', [(''$eq'', VInt 7)])]] (Some 0) example_world =
      add_and_return recording_session (VObj 0)
        (?w\<lparr>instances := (instances example_world)
             [0 := assigned [''name''] (dicts ?w ! 0) (instances example_world ! 0)],
           backend := backend example_world\<rparr>)"
    by (simp only: delete_by_params_merge [OF ne]
        update_by_params_found [where find_func = finder_by_id and session_obj = recording_session
          and model_cls = "plain_model Map.empty" and params = "[[(''id'', [(''$eq'', VInt 7)])]]"
          and w = "?w", OF f])
  have n: "(instances (snd (delete_by_params recording_session (plain_model Map.empty) finder_by_id
        [''name''] [[(''id'', [(''$eq'', VInt 7)])]] (Some 0) example_world)) ! 0) ''name'' =
       Some (VStr ''b'')"
    by (simp add: d recording_add) (simp add: example_world_def)
  have o: "(instances example_world ! 0) ''name'' = Some (VStr ''a'')"
    by (simp add: example_world_def)
  have "instances (snd (delete_by_params recording_session (plain_model Map.empty) finder_by_id
        [''name''] [[(''id'', [(''$eq'', VInt 7)])]] (Some 0) example_world)) ! 0 \<noteq>
       instances example_world ! 0"
  proof
    assume "instances (snd (delete_by_params recording_session (plain_model Map.empty) finder_by_id
        [''name''] [[(''id'', [(''$eq'', VInt 7)])]] (Some 0) example_world)) ! 0 =
       instances example_world ! 0"
    then have "Some (VStr ''b'') = Some (VStr ''a'')" using n o by simp
    then show False by simp
  qed
  moreover have "fst (delete_by_params recording_session (plain_model Map.empty) finder_by_id [''name'']
        [[(''id'', [(''$eq'', VInt 7)])]] (Some 0) example_world) = Inr (VObj 0)"
    by (simp add: d recording_add)
  ultimately show ?thesis using example_find n o by simp
qed

text \<open>
  C7, amended. When the whitelist has neither \<^verbatim>\<open>removed\<close> nor \<^verbatim>\<open>removed_at\<close> and
  the extra data is absent or has no key of the whitelist, a delete call on a record
  located by the find function hands the session the instances exactly as the find
  function left them (no attribute of the located record is changed), and its result is
  the record unless the session's \<^verbatim>\<open>add\<close> raises, and then it is that error.
\<close>

theorem delete_without_removal_fields:
  assumes "''removed'' \<notin> set flds" and "''removed_at'' \<notin> set flds"
    and "find_func session_obj model_cls params (instances w, backend w) = (Inr (VObj r), (i1, b1))"
    and "case data of None \<Rightarrow> True | Some d \<Rightarrow> \<forall>k \<in> set flds. (dicts w ! d) k = None"
  shows "\<exists>ds. delete_by_params session_obj model_cls find_func flds params data w =
             add_and_return session_obj (VObj r) (w\<lparr>dicts := ds, instances := i1, backend := b1\<rparr>)
         \<and> fst (delete_by_params session_obj model_cls find_func flds params data w) =
             (case fst (add session_obj (VObj r) (i1, b1)) of
                Inl e \<Rightarrow> Inl e | Inr u \<Rightarrow> Inr (VObj r))"
proof -
  have k: "\<And>k. k \<in> set flds \<Longrightarrow> k \<noteq> ''removed'' \<and> k \<noteq> ''removed_at''"
    using assms(1,2) by auto
  have "\<exists>ds. delete_by_params session_obj model_cls find_func flds params data w =
             add_and_return session_obj (VObj r) (w\<lparr>dicts := ds, instances := i1, backend := b1\<rparr>)"
  proof (cases "case data of None \<Rightarrow> True | Some d \<Rightarrow> dicts w ! d = Map.empty")
    case True
    let ?p = "[''removed'' \<mapsto> VBool True, ''removed_at'' \<mapsto> VDatetime (clock w)]"
    let ?w = "w\<lparr>dicts := dicts w @ [?p]\<rparr>"
    have f: "find_func session_obj model_cls params (instances ?w, backend ?w) =
        (Inr (VObj r), (i1, b1))" using assms(3) by simp
    have a: "\<forall>k \<in> set flds. (dicts ?w ! length (dicts w)) k = None" using k by simp
    have "delete_by_params session_obj model_cls find_func flds params data w =
        add_and_return session_obj (VObj r) (?w\<lparr>instances := i1, backend := b1\<rparr>)"
      using True update_by_params_found_same [where find_func = find_func
          and session_obj = session_obj and model_cls = model_cls and params = params
          and w = "?w", OF f a] by (simp add: delete_by_params_fresh)
    then show ?thesis by blast
  next
    case False
    then obtain d where d: "data = Some d" and ne: "dicts w ! d \<noteq> Map.empty"
      by (cases data) simp_all
    let ?p = "dicts w ! d ++ [''removed'' \<mapsto> VBool True, ''removed_at'' \<mapsto> VDatetime (clock w)]"
    let ?w = "w\<lparr>dicts := (dicts w)[d := ?p]\<rparr>"
    have f: "find_func session_obj model_cls params (instances ?w, backend ?w) =
        (Inr (VObj r), (i1, b1))" using assms(3) by simp
    have o: "\<forall>k \<in> set flds. (dicts w ! d) k = None" using assms(4) d by simp
    have a: "\<forall>k \<in> set flds. (dicts ?w ! d) k = None"
    proof (cases "d < length (dicts w)")
      case True
      then show ?thesis using o k by (simp add: map_add_def)
    next
      case False
      then have "length (dicts w) \<le> d" by simp
      then show ?thesis using o by (simp add: list_update_beyond)
    qed
    have "delete_by_params session_obj model_cls find_func flds params data w =
        add_and_return session_obj (VObj r) (?w\<lparr>instances := i1, backend := b1\<rparr>)"
      using d update_by_params_found_same [where find_func = find_func
          and session_obj = session_obj and model_cls = model_cls and params = params
          and w = "?w", OF f a] by (simp add: delete_by_params_merge [OF ne])
    then show ?thesis by blast
  qed
  then obtain ds where e: "delete_by_params session_obj model_cls find_func flds params data w =
             add_and_return session_obj (VObj r) (w\<lparr>dicts := ds, instances := i1, backend := b1\<rparr>)"
    by blast
  have "fst (delete_by_params session_obj model_cls find_func flds params data w) =
             (case fst (add session_obj (VObj r) (i1, b1)) of
                Inl e \<Rightarrow> Inl e | Inr u \<Rightarrow> Inr (VObj r))"
    by (simp add: e add_and_return_fst)
  then show ?thesis using e by blast
qed

theorem delete_without_removal_fields_witness:
  "''removed'' \<notin> set [''name''] \<and> ''removed_at'' \<notin> set [''name'']
   \<and> finder_by_id recording_session (plain_model Map.empty) [[(''id'', [(''$eq'', VInt 7)])]]
        (instances example_world, backend example_world) =
       (Inr (VObj 0), (instances example_world, backend example_world))
   \<and> (dicts example_world ! 2) ''name'' = None
   \<and> (dicts example_world ! 2) ''note'' = Some (VStr ''x'')
   \<and> fst (delete_by_params recording_session (plain_model Map.empty) finder_by_id [''name'']
        [[(''id'', [(''$eq'', VInt 7)])]] (Some 2) example_world) = Inr (VObj 0)
   \<and> instances (snd (delete_by_params recording_session (plain_model Map.empty) finder_by_id
        [''name''] [[(''id'', [(''$eq'', VInt 7)])]] (Some 2) example_world)) = instances example_world"
proof -
  have 1: "''removed'' \<notin> set [''name'']" by simp
  have 2: "''removed_at'' \<notin> set [''name'']" by simp
  have 4: "case Some 2 of None \<Rightarrow> True
           | Some d \<Rightarrow> \<forall>k \<in> set [''name'']. (dicts example_world ! d) k = None"
    by (simp add: example_extra)
  obtain ds where
    e: "delete_by_params recording_session (plain_model Map.empty) finder_by_id [''name'']
          [[(''id'', [(''$eq'', VInt 7)])]] (Some 2) example_world =
        add_and_return recording_session (VObj 0)
          (example_world\<lparr>dicts := ds, instances := instances example_world,
             backend := backend example_world\<rparr>)"
    using delete_without_removal_fields [where find_func = finder_by_id
        and session_obj = recording_session and model_cls = "plain_model Map.empty"
        and w = example_world and flds = "[''name'']" and data = "Some 2", OF 1 2 example_find 4]
    by blast
  show ?thesis using 1 2 example_find by (simp add: e recording_add example_extra)
qed

text \<open>
  C8. An error raised by a collaborator is the result of the operation, unchanged.
  When the find function raises, \<^verbatim>\<open>update_by_params\<close>, \<^verbatim>\<open>update_by_id\<close>,
  \<^verbatim>\<open>delete_by_params\<close> and \<^verbatim>\<open>delete_by_id\<close> raise that error. When the session's
  \<^verbatim>\<open>add\<close> raises in the state in which the helper calls it (the one the loop over the
  whitelist left, whatever the find function returned and whatever the session looks at),
  each of them raises that error and leaves the world as \<^verbatim>\<open>add\<close> left it; the same for
  \<^verbatim>\<open>save\<close> when instantiating the model class raises and when \<^verbatim>\<open>add\<close> raises on
  the new instance. For a record the loop never raises, and the state it leaves is the one
  of the last line.
\<close>

theorem collaborator_errors_propagate:
  "(find_func session_obj model_cls params (instances w, backend w) = (Inl e, (i1, b1)) \<longrightarrow>
       update_by_params session_obj model_cls find_func flds params data w =
         (Inl e, w\<lparr>instances := i1, backend := b1\<rparr>)
     \<and> fst (delete_by_params session_obj model_cls find_func flds params odata w) = Inl e
     \<and> (params = [[(''id'', [(''$eq'', the_id)])]] \<longrightarrow>
          update_by_id session_obj model_cls find_func flds the_id data w =
            (Inl e, w\<lparr>instances := i1, backend := b1\<rparr>)
        \<and> fst (delete_by_id session_obj model_cls find_func flds the_id odata w) = Inl e))
   \<and> (find_func session_obj model_cls params (instances w, backend w) = (Inr v, (i1, b1))
        \<and> truthy v
        \<and> set_fields flds data v (w\<lparr>instances := i1, backend := b1\<rparr>) = (Inr u, w2)
        \<and> add session_obj v (instances w2, backend w2) = (Inl e, (i3, b3)) \<longrightarrow>
       update_by_params session_obj model_cls find_func flds params data w =
         (Inl e, w2\<lparr>instances := i3, backend := b3\<rparr>)
     \<and> (params = [[(''id'', [(''$eq'', the_id)])]] \<longrightarrow>
          update_by_id session_obj model_cls find_func flds the_id data w =
            (Inl e, w2\<lparr>instances := i3, backend := b3\<rparr>)))
   \<and> (find_func session_obj model_cls params (instances w, backend w) = (Inr v, (i1, b1))
        \<and> truthy v
        \<and> (case odata of None \<Rightarrow> True | Some d \<Rightarrow> dicts w ! d = Map.empty)
        \<and> set_fields flds (length (dicts w)) v
             (w\<lparr>dicts := dicts w @
                  [[''removed'' \<mapsto> VBool True, ''removed_at'' \<mapsto> VDatetime (clock w)]],
                instances := i1, backend := b1\<rparr>) = (Inr u, w2)
        \<and> add session_obj v (instances w2, backend w2) = (Inl e, (i3, b3)) \<longrightarrow>
       delete_by_params session_obj model_cls find_func flds params odata w =
         (Inl e, w2\<lparr>instances := i3, backend := b3\<rparr>)
     \<and> (params = [[(''id'', [(''$eq'', the_id)])]] \<longrightarrow>
          delete_by_id session_obj model_cls find_func flds the_id odata w =
            (Inl e, w2\<lparr>instances := i3, backend := b3\<rparr>)))
   \<and> (find_func session_obj model_cls params (instances w, backend w) = (Inr v, (i1, b1))
        \<and> truthy v
        \<and> dicts w ! d \<noteq> Map.empty
        \<and> set_fields flds d v
             (w\<lparr>dicts := (dicts w)[d := dicts w ! d ++
                  [''removed'' \<mapsto> VBool True, ''removed_at'' \<mapsto> VDatetime (clock w)]],
                instances := i1, backend := b1\<rparr>) = (Inr u, w2)
        \<and> add session_obj v (instances w2, backend w2) = (Inl e, (i3, b3)) \<longrightarrow>
       delete_by_params session_obj model_cls find_func flds params (Some d) w =
         (Inl e, w2\<lparr>instances := i3, backend := b3\<rparr>)
     \<and> (params = [[(''id'', [(''$eq'', the_id)])]] \<longrightarrow>
          delete_by_id session_obj model_cls find_func flds the_id (Some d) w =
            (Inl e, w2\<lparr>instances := i3, backend := b3\<rparr>)))
   \<and> (init model_cls (instances w, backend w) = (Inl e, (i1, b1)) \<longrightarrow>
       save session_obj model_cls flds data w = (Inl e, w\<lparr>instances := i1, backend := b1\<rparr>))
   \<and> (init model_cls (instances w, backend w) = (Inr r, (i1, b1))
        \<and> set_fields flds data (VObj r) (w\<lparr>instances := i1, backend := b1\<rparr>) = (Inr u, w2)
        \<and> add session_obj (VObj r) (instances w2, backend w2) = (Inl e, (i3, b3)) \<longrightarrow>
       save session_obj model_cls flds data w = (Inl e, w2\<lparr>instances := i3, backend := b3\<rparr>))
   \<and> set_fields flds data (VObj r) w =
       (Inr (), w\<lparr>instances :=
          (instances w)[r := assigned flds (dicts w ! data) (instances w ! r)]\<rparr>)"
proof (intro conjI)
  show "find_func session_obj model_cls params (instances w, backend w) = (Inl e, (i1, b1)) \<longrightarrow>
       update_by_params session_obj model_cls find_func flds params data w =
         (Inl e, w\<lparr>instances := i1, backend := b1\<rparr>)
     \<and> fst (delete_by_params session_obj model_cls find_func flds params odata w) = Inl e
     \<and> (params = [[(''id'', [(''$eq'', the_id)])]] \<longrightarrow>
          update_by_id session_obj model_cls find_func flds the_id data w =
            (Inl e, w\<lparr>instances := i1, backend := b1\<rparr>)
        \<and> fst (delete_by_id session_obj model_cls find_func flds the_id odata w) = Inl e)"
  proof
    assume h: "find_func session_obj model_cls params (instances w, backend w) = (Inl e, (i1, b1))"
    have u: "\<And>d w0. instances w0 = instances w \<Longrightarrow> backend w0 = backend w \<Longrightarrow>
        update_by_params session_obj model_cls find_func flds params d w0 =
          (Inl e, w0\<lparr>instances := i1, backend := b1\<rparr>)"
      using h by (simp add: update_by_params_def call_eq)
    have d: "fst (delete_by_params session_obj model_cls find_func flds params odata w) = Inl e"
      by (simp add: delete_by_params_def u)
    show "update_by_params session_obj model_cls find_func flds params data w =
         (Inl e, w\<lparr>instances := i1, backend := b1\<rparr>)
     \<and> fst (delete_by_params session_obj model_cls find_func flds params odata w) = Inl e
     \<and> (params = [[(''id'', [(''$eq'', the_id)])]] \<longrightarrow>
          update_by_id session_obj model_cls find_func flds the_id data w =
            (Inl e, w\<lparr>instances := i1, backend := b1\<rparr>)
        \<and> fst (delete_by_id session_obj model_cls find_func flds the_id odata w) = Inl e)"
      using u [of w data] d by (auto simp add: update_by_id_def delete_by_id_def)
  qed
next
  show "find_func session_obj model_cls params (instances w, backend w) = (Inr v, (i1, b1))
        \<and> truthy v
        \<and> set_fields flds data v (w\<lparr>instances := i1, backend := b1\<rparr>) = (Inr u, w2)
        \<and> add session_obj v (instances w2, backend w2) = (Inl e, (i3, b3)) \<longrightarrow>
       update_by_params session_obj model_cls find_func flds params data w =
         (Inl e, w2\<lparr>instances := i3, backend := b3\<rparr>)
     \<and> (params = [[(''id'', [(''$eq'', the_id)])]] \<longrightarrow>
          update_by_id session_obj model_cls find_func flds the_id data w =
            (Inl e, w2\<lparr>instances := i3, backend := b3\<rparr>))"
  proof
    assume h: "find_func session_obj model_cls params (instances w, backend w) = (Inr v, (i1, b1))
        \<and> truthy v
        \<and> set_fields flds data v (w\<lparr>instances := i1, backend := b1\<rparr>) = (Inr u, w2)
        \<and> add session_obj v (instances w2, backend w2) = (Inl e, (i3, b3))"
    have "update_by_params session_obj model_cls find_func flds params data w =
         (Inl e, w2\<lparr>instances := i3, backend := b3\<rparr>)"
      using h update_by_params_add_raises [where find_func = find_func and w = w and v = v
          and session_obj = session_obj and model_cls = model_cls and params = params]
      by blast
    then show "update_by_params session_obj model_cls find_func flds params data w =
         (Inl e, w2\<lparr>instances := i3, backend := b3\<rparr>)
     \<and> (params = [[(''id'', [(''$eq'', the_id)])]] \<longrightarrow>
          update_by_id session_obj model_cls find_func flds the_id data w =
            (Inl e, w2\<lparr>instances := i3, backend := b3\<rparr>))"
      by (auto simp add: update_by_id_def)
  qed
next
  show "find_func session_obj model_cls params (instances w, backend w) = (Inr v, (i1, b1))
        \<and> truthy v
        \<and> (case odata of None \<Rightarrow> True | Some d \<Rightarrow> dicts w ! d = Map.empty)
        \<and> set_fields flds (length (dicts w)) v
             (w\<lparr>dicts := dicts w @
                  [[''removed'' \<mapsto> VBool True, ''removed_at'' \<mapsto> VDatetime (clock w)]],
                instances := i1, backend := b1\<rparr>) = (Inr u, w2)
        \<and> add session_obj v (instances w2, backend w2) = (Inl e, (i3, b3)) \<longrightarrow>
       delete_by_params session_obj model_cls find_func flds params odata w =
         (Inl e, w2\<lparr>instances := i3, backend := b3\<rparr>)
     \<and> (params = [[(''id'', [(''$eq'', the_id)])]] \<longrightarrow>
          delete_by_id session_obj model_cls find_func flds the_id odata w =
            (Inl e, w2\<lparr>instances := i3, backend := b3\<rparr>))"
  proof
    assume h: "find_func session_obj model_cls params (instances w, backend w) = (Inr v, (i1, b1))
        \<and> truthy v
        \<and> (case odata of None \<Rightarrow> True | Some d \<Rightarrow> dicts w ! d = Map.empty)
        \<and> set_fields flds (length (dicts w)) v
             (w\<lparr>dicts := dicts w @
                  [[''removed'' \<mapsto> VBool True, ''removed_at'' \<mapsto> VDatetime (clock w)]],
                instances := i1, backend := b1\<rparr>) = (Inr u, w2)
        \<and> add session_obj v (instances w2, backend w2) = (Inl e, (i3, b3))"
    have "delete_by_params session_obj model_cls find_func flds params odata w =
         (Inl e, w2\<lparr>instances := i3, backend := b3\<rparr>)"
      using h delete_fresh_add_raises [where find_func = find_func and w = w and v = v
          and session_obj = session_obj and model_cls = model_cls and params = params]
      by blast
    then show "delete_by_params session_obj model_cls find_func flds params odata w =
         (Inl e, w2\<lparr>instances := i3, backend := b3\<rparr>)
     \<and> (params = [[(''id'', [(''$eq'', the_id)])]] \<longrightarrow>
          delete_by_id session_obj model_cls find_func flds the_id odata w =
            (Inl e, w2\<lparr>instances := i3, backend := b3\<rparr>))"
      by (auto simp add: delete_by_id_def)
  qed
next
  show "find_func session_obj model_cls params (instances w, backend w) = (Inr v, (i1, b1))
        \<and> truthy v
        \<and> dicts w ! d \<noteq> Map.empty
        \<and> set_fields flds d v
             (w\<lparr>dicts := (dicts w)[d := dicts w ! d ++
                  [''removed'' \<mapsto> VBool True, ''removed_at'' \<mapsto> VDatetime (clock w)]],
                instances := i1, backend := b1\<rparr>) = (Inr u, w2)
        \<and> add session_obj v (instances w2, backend w2) = (Inl e, (i3, b3)) \<longrightarrow>
       delete_by_params session_obj model_cls find_func flds params (Some d) w =
         (Inl e, w2\<lparr>instances := i3, backend := b3\<rparr>)
     \<and> (params = [[(''id'', [(''$eq'', the_id)])]] \<longrightarrow>
          delete_by_id session_obj model_cls find_func flds the_id (Some d) w =
            (Inl e, w2\<lparr>instances := i3, backend := b3\<rparr>))"
  proof
    assume h: "find_func session_obj model_cls params (instances w, backend w) = (Inr v, (i1, b1))
        \<and> truthy v
        \<and> dicts w ! d \<noteq> Map.empty
        \<and> set_fields flds d v
             (w\<lparr>dicts := (dicts w)[d := dicts w ! d ++
                  [''removed'' \<mapsto> VBool True, ''removed_at'' \<mapsto> VDatetime (clock w)]],
                instances := i1, backend := b1\<rparr>) = (Inr u, w2)
        \<and> add session_obj v (instances w2, backend w2) = (Inl e, (i3, b3))"
    have "delete_by_params session_obj model_cls find_func flds params (Some d) w =
         (Inl e, w2\<lparr>instances := i3, backend := b3\<rparr>)"
      using h delete_merge_add_raises [where find_func = find_func and w = w and v = v
          and session_obj = session_obj and model_cls = model_cls and params = params]
      by blast
    then show "delete_by_params session_obj model_cls find_func flds params (Some d) w =
         (Inl e, w2\<lparr>instances := i3, backend := b3\<rparr>)
     \<and> (params = [[(''id'', [(''$eq'', the_id)])]] \<longrightarrow>
          delete_by_id session_obj model_cls find_func flds the_id (Some d) w =
            (Inl e, w2\<lparr>instances := i3, backend := b3\<rparr>))"
      by (auto simp add: delete_by_id_def)
  qed
next
  show "init model_cls (instances w, backend w) = (Inl e, (i1, b1)) \<longrightarrow>
       save session_obj model_cls flds data w = (Inl e, w\<lparr>instances := i1, backend := b1\<rparr>)"
    by (simp add: save_def call_eq)
next
  show "init model_cls (instances w, backend w) = (Inr r, (i1, b1))
        \<and> set_fields flds data (VObj r) (w\<lparr>instances := i1, backend := b1\<rparr>) = (Inr u, w2)
        \<and> add session_obj (VObj r) (instances w2, backend w2) = (Inl e, (i3, b3)) \<longrightarrow>
       save session_obj model_cls flds data w = (Inl e, w2\<lparr>instances := i3, backend := b3\<rparr>)"
    using save_add_raises [where model_cls = model_cls and w = w and session_obj = session_obj]
    by blast
next
  show "set_fields flds data (VObj r) w =
       (Inr (), w\<lparr>instances :=
          (instances w)[r := assigned flds (dicts w ! data) (instances w ! r)]\<rparr>)"
    by (rule set_fields_obj)
qed

theorem collaborator_errors_propagate_witness:
  "fst (add (picky_session (OtherError ''IntegrityError'')) (VObj 0)
        (instances example_world, backend example_world)) = Inr ()
   \<and> fst (update_by_id (picky_session (OtherError ''IntegrityError'')) (plain_model Map.empty)
        finder_by_id [''name''] (VInt 7) 0 example_world) = Inl (OtherError ''IntegrityError'')
   \<and> fst (delete_by_id (picky_session (OtherError ''IntegrityError'')) (plain_model Map.empty)
        finder_by_id [''name''] (VInt 7) (Some 0) example_world) = Inl (OtherError ''IntegrityError'')
   \<and> fst (delete_by_id (failing_session (OtherError ''IntegrityError'')) (plain_model Map.empty)
        finder_by_id [''name''] (VInt 7) None example_world) = Inl (OtherError ''IntegrityError'')
   \<and> fst (save (picky_session (OtherError ''IntegrityError'')) (plain_model Map.empty)
        [''name''] 0 example_world) = Inl (OtherError ''IntegrityError'')
   \<and> save recording_session (failing_model (OtherError ''TypeError'')) [''name''] 0 example_world =
       (Inl (OtherError ''TypeError''), example_world)
   \<and> update_by_id recording_session (plain_model Map.empty)
        (finder_raising (OtherError ''OperationalError'')) [''name''] (VInt 7) 0 example_world =
       (Inl (OtherError ''OperationalError''), example_world)
   \<and> fst (delete_by_id recording_session (plain_model Map.empty)
        (finder_raising (OtherError ''OperationalError'')) [''name''] (VInt 7) None example_world) =
       Inl (OtherError ''OperationalError'')"
proof -
  let ?E1 = "OtherError ''OperationalError''"
  let ?E2 = "OtherError ''IntegrityError''"
  let ?E3 = "OtherError ''TypeError''"
  let ?ps = "[[(''id'', [(''$eq'', VInt 7)])]]"
  let ?m = "plain_model Map.empty"
  let ?i = "instances example_world"
  let ?b = "backend example_world"
  let ?rm = "[''removed'' \<mapsto> VBool True, ''removed_at'' \<mapsto> VDatetime (clock example_world)]"
  have w: "example_world\<lparr>instances := ?i, backend := ?b\<rparr> = example_world" by simp
  have tv: "truthy (VObj 0)" by simp
  have p0: "fst (add (picky_session ?E2) (VObj 0) (?i, ?b)) = Inr ()"
    by (simp add: picky_session_def example_world_def)
  \<comment> \<open>update: the session raises on the record as the loop left it\<close>
  let ?u2 = "example_world\<lparr>instances := [(?i ! 0)(''name'' \<mapsto> VStr ''b'')]\<rparr>"
  have su: "set_fields [''name''] 0 (VObj 0) (example_world\<lparr>instances := ?i, backend := ?b\<rparr>) =
      (Inr (), ?u2)"
    by (simp add: example_world_def)
  have au: "add (picky_session ?E2) (VObj 0) (instances ?u2, backend ?u2) =
      (Inl ?E2, (instances ?u2, backend ?u2))"
    by (simp add: picky_session_def)
  have 1: "fst (update_by_id (picky_session ?E2) ?m finder_by_id [''name''] (VInt 7) 0
      example_world) = Inl ?E2"
    using collaborator_errors_propagate [where find_func = finder_by_id
        and session_obj = "picky_session ?E2" and model_cls = ?m and params = ?ps
        and the_id = "VInt 7" and w = example_world and e = ?E2 and v = "VObj 0"
        and ?i1.0 = ?i and ?b1.0 = ?b and flds = "[''name'']" and data = 0 and u = "()"
        and ?w2.0 = ?u2 and ?i3.0 = "instances ?u2" and ?b3.0 = "backend ?u2"]
      example_find_picky [of ?E2] tv su au
    by simp
  \<comment> \<open>delete with extra data: the same, on the merged payload\<close>
  let ?d2 = "example_world\<lparr>dicts := (dicts example_world)[0 := dicts example_world ! 0 ++ ?rm],
      instances := [(?i ! 0)(''name'' \<mapsto> VStr ''b'')]\<rparr>"
  have ne: "dicts example_world ! 0 \<noteq> Map.empty" by (simp add: example_world_def)
  have sd: "set_fields [''name''] 0 (VObj 0)
      (example_world\<lparr>dicts := (dicts example_world)[0 := dicts example_world ! 0 ++ ?rm],
         instances := ?i, backend := ?b\<rparr>) = (Inr (), ?d2)"
    by (simp add: example_world_def)
  have ad: "add (picky_session ?E2) (VObj 0) (instances ?d2, backend ?d2) =
      (Inl ?E2, (instances ?d2, backend ?d2))"
    by (simp add: picky_session_def)
  have 2: "fst (delete_by_id (picky_session ?E2) ?m finder_by_id [''name''] (VInt 7) (Some 0)
      example_world) = Inl ?E2"
    using collaborator_errors_propagate [where find_func = finder_by_id
        and session_obj = "picky_session ?E2" and model_cls = ?m and params = ?ps
        and the_id = "VInt 7" and w = example_world and e = ?E2 and v = "VObj 0"
        and ?i1.0 = ?i and ?b1.0 = ?b and flds = "[''name'']" and d = 0 and u = "()"
        and ?w2.0 = ?d2 and ?i3.0 = "instances ?d2" and ?b3.0 = "backend ?d2"]
      example_find_picky [of ?E2] tv ne sd ad
    by simp
  \<comment> \<open>delete without extra data, a session that always raises\<close>
  let ?f2 = "example_world\<lparr>dicts := dicts example_world @ [?rm]\<rparr>"
  have sf: "set_fields [''name''] (length (dicts example_world)) (VObj 0)
      (example_world\<lparr>dicts := dicts example_world @ [?rm], instances := ?i, backend := ?b\<rparr>) =
      (Inr (), ?f2)"
    by (simp add: example_world_def)
  have af: "add (failing_session ?E2) (VObj 0) (instances ?f2, backend ?f2) =
      (Inl ?E2, (instances ?f2, backend ?f2))"
    by (simp add: failing_session_def)
  have 3: "fst (delete_by_id (failing_session ?E2) ?m finder_by_id [''name''] (VInt 7) None
      example_world) = Inl ?E2"
    using collaborator_errors_propagate [where find_func = finder_by_id
        and session_obj = "failing_session ?E2" and model_cls = ?m and params = ?ps
        and the_id = "VInt 7" and w = example_world and e = ?E2 and v = "VObj 0"
        and ?i1.0 = ?i and ?b1.0 = ?b and flds = "[''name'']" and odata = None and u = "()"
        and ?w2.0 = ?f2 and ?i3.0 = "instances ?f2" and ?b3.0 = "backend ?f2"]
      example_find_failing [of ?E2] tv sf af
    by simp
  \<comment> \<open>save: the session raises on the new instance\<close>
  let ?s2 = "example_world\<lparr>instances := ?i @ [[''name'' \<mapsto> VStr ''b'']]\<rparr>"
  have ss: "set_fields [''name''] 0 (VObj 1)
      (example_world\<lparr>instances := ?i @ [Map.empty], backend := ?b\<rparr>) = (Inr (), ?s2)"
    by (simp add: example_world_def)
  have as: "add (picky_session ?E2) (VObj 1) (instances ?s2, backend ?s2) =
      (Inl ?E2, (instances ?s2, backend ?s2))"
    by (simp add: picky_session_def example_world_def)
  have 4: "fst (save (picky_session ?E2) ?m [''name''] 0 example_world) = Inl ?E2"
    using collaborator_errors_propagate [where session_obj = "picky_session ?E2"
        and model_cls = ?m and w = example_world and e = ?E2 and r = 1
        and ?i1.0 = "?i @ [Map.empty]" and ?b1.0 = ?b and flds = "[''name'']" and data = 0
        and u = "()" and ?w2.0 = ?s2 and ?i3.0 = "instances ?s2" and ?b3.0 = "backend ?s2"]
      example_init ss as
    by simp
  \<comment> \<open>the model class raises\<close>
  have fi: "init (failing_model ?E3) (?i, ?b) = (Inl ?E3, (?i, ?b))"
    by (simp add: failing_model_def)
  have 5: "save recording_session (failing_model ?E3) [''name''] 0 example_world =
      (Inl ?E3, example_world)"
    using collaborator_errors_propagate [where session_obj = recording_session
        and model_cls = "failing_model ?E3" and w = example_world and e = ?E3
        and ?i1.0 = ?i and ?b1.0 = ?b and flds = "[''name'']" and data = 0]
      fi w
    by simp
  \<comment> \<open>the find function raises\<close>
  have f1: "finder_raising ?E1 recording_session ?m ?ps (?i, ?b) = (Inl ?E1, (?i, ?b))"
    by (simp add: finder_raising_def)
  note t1 = collaborator_errors_propagate [where find_func = "finder_raising ?E1"
      and session_obj = recording_session and model_cls = ?m
      and params = ?ps and the_id = "VInt 7" and w = example_world and e = ?E1
      and ?i1.0 = ?i and ?b1.0 = ?b and flds = "[''name'']" and data = 0 and odata = None]
  have 6: "update_by_id recording_session ?m (finder_raising ?E1) [''name''] (VInt 7) 0
      example_world = (Inl ?E1, example_world)"
    using t1 f1 w by simp
  have 7: "fst (delete_by_id recording_session ?m (finder_raising ?E1) [''name''] (VInt 7) None
      example_world) = Inl ?E1"
    using t1 f1 by blast
  show ?thesis using p0 1 2 3 4 5 6 7 by blast
qed

end
